theory Spec2Isabelle
  imports Main "HOL-Library.Word"
begin

section \<open>The GitHub publisher (tools/github-publisher)\<close>

text \<open>
  The development embeds \<^verbatim>\<open>models.py\<close>, \<^verbatim>\<open>api.py\<close> and \<^verbatim>\<open>publisher.py\<close> of
  \<^verbatim>\<open>src/tools/github-publisher\<close>. Exceptions are values of a sum type, the objects
  \<^verbatim>\<open>GitHubAPI\<close> and \<^verbatim>\<open>GitHubPublisher\<close> are records that every method takes and
  returns, and the network is a function from the requests issued so far and the
  current request to the HTTP response. Console output (\<^verbatim>\<open>log_info\<close>, \<^verbatim>\<open>print\<close>)
  and \<^verbatim>\<open>time.sleep\<close> have no effect on any value and are left out.
\<close>

subsection \<open>models.py\<close>

type_synonym bytes = "8 word list"

datatype RepoVisibility = PUBLIC | PRIVATE

datatype FileStatus = PENDING | UPLOADING | SUCCESS | FAILED | SKIPPED

record RepoConfig =
  rc_name :: string
  rc_description :: string
  rc_visibility :: RepoVisibility
  rc_homepage :: string
  rc_topics :: "string list"
  rc_has_issues :: bool
  rc_has_wiki :: bool
  rc_has_projects :: bool
  rc_auto_init :: bool

record FileEntry =
  fe_path :: string
  fe_content :: bytes
  fe_sha :: "string option"
  fe_status :: FileStatus
  fe_error :: "string option"

record BlobResponse =
  blob_sha :: string
  blob_url :: string

record TreeEntry =
  te_path :: string
  te_mode :: string
  te_type :: string
  te_sha :: string

record TreeResponse =
  tree_sha :: string
  tree_url :: string

record CommitResponse =
  cr_sha :: string
  cr_url :: string
  cr_html_url :: string

record RepoResponse =
  rr_id :: int
  rr_name :: string
  rr_full_name :: string
  rr_html_url :: string
  rr_clone_url :: string
  rr_ssh_url :: string
  rr_default_branch :: string

record PublishResult =
  success :: bool
  repo_url :: string
  commit_sha :: string
  files_uploaded :: int
  files_skipped :: int
  files_failed :: int
  error :: "string option"

text \<open>\<^verbatim>\<open>PublishResult(success=False)\<close>, every other field at its default.\<close>

definition PublishResult_init :: "bool \<Rightarrow> PublishResult" where
  "PublishResult_init s =
     \<lparr>success = s, repo_url = [], commit_sha = [], files_uploaded = 0,
      files_skipped = 0, files_failed = 0, error = None\<rparr>"

text \<open>\<^verbatim>\<open>TreeEntry(path=..., sha=...)\<close>: mode and type keep their defaults.\<close>

definition TreeEntry_init :: "string \<Rightarrow> string \<Rightarrow> TreeEntry" where
  "TreeEntry_init p s = \<lparr>te_path = p, te_mode = ''100644'', te_type = ''blob'', te_sha = s\<rparr>"

subsection \<open>config.py\<close>

definition MAX_FILE_SIZE_MB :: nat where
  "MAX_FILE_SIZE_MB = 50"

definition DEFAULT_TOPICS :: "string list" where
  "DEFAULT_TOPICS =
     [''tauri'', ''react'', ''typescript'', ''rust'', ''league-of-legends'', ''skin-manager'',
      ''desktop-app'', ''discord-oauth'', ''mod-manager'', ''vite'']"

subsection \<open>utils.py: format_size\<close>

text \<open>
  \<^verbatim>\<open>format_size\<close> divides by 1024 until the value is below 1024 and prints it with
  one decimal. The value is always \<open>n / 1024 ^ k\<close>, which a double holds exactly for
  every \<open>n < 2 ^ 53\<close>, and \<^verbatim>\<open>:.1f\<close> rounds the exact value half to even; the model
  computes the same digits with integer arithmetic on \<open>n\<close> and the divisor \<open>d\<close>.
\<close>

fun show_nat :: "nat \<Rightarrow> string" where
  "show_nat n =
     (if n < 10 then [''0123456789'' ! n]
      else show_nat (n div 10) @ [''0123456789'' ! (n mod 10)])"

declare show_nat.simps [simp del]

definition fmt_1f :: "nat \<Rightarrow> nat \<Rightarrow> string" where
  "fmt_1f n d =
     (let q = (10 * n) div d; r = (10 * n) mod d;
          t = (if d < 2 * r \<or> (2 * r = d \<and> odd q) then q + 1 else q)
      in show_nat (t div 10) @ ''.'' @ show_nat (t mod 10))"

fun format_units :: "nat \<Rightarrow> nat \<Rightarrow> string list \<Rightarrow> string" where
  "format_units n d [] = fmt_1f n d @ '' TB''"
| "format_units n d (u # us) =
     (if n < 1024 * d then fmt_1f n d @ '' '' @ u else format_units n (1024 * d) us)"

definition format_size :: "nat \<Rightarrow> string" where
  "format_size size_bytes = format_units size_bytes 1 [''B'', ''KB'', ''MB'', ''GB'']"

subsection \<open>api.py: requests, responses, exceptions\<close>

text \<open>
  The \<^verbatim>\<open>json=\<close> argument of a request. The blob payload carries the file content
  (base64 on the wire); the tree payload carries the entries and \<^verbatim>\<open>base_tree\<close> when
  the key is set; the commit payload carries message, tree and \<^verbatim>\<open>parents\<close> when the
  key is set.
\<close>

datatype payload =
    No_json
  | Repo_json string string bool bool bool bool bool "string option"
  | Topics_json "string list"
  | Blob_json bytes
  | Tree_json "TreeEntry list" "string option"
  | Commit_json string string "string list option"
  | Ref_update_json string bool
  | Ref_create_json string string

record request =
  rq_method :: string
  rq_endpoint :: string
  rq_json :: payload

text \<open>
  The JSON object of a response, restricted to the keys the client reads, each with the
  type the response dataclasses give it. \<open>None\<close> is an absent key. \<open>b_object\<close> is the
  nested object of a ref: \<open>Some None\<close> is an object without \<^verbatim>\<open>sha\<close>.
\<close>

record body =
  b_message :: "string option"
  b_login :: "string option"
  b_id :: "int option"
  b_name :: "string option"
  b_full_name :: "string option"
  b_html_url :: "string option"
  b_clone_url :: "string option"
  b_ssh_url :: "string option"
  b_default_branch :: "string option"
  b_sha :: "string option"
  b_url :: "string option"
  b_object :: "string option option"

definition empty_body :: body where
  "empty_body =
     \<lparr>b_message = None, b_login = None, b_id = None, b_name = None, b_full_name = None,
      b_html_url = None, b_clone_url = None, b_ssh_url = None, b_default_branch = None,
      b_sha = None, b_url = None, b_object = None\<rparr>"

text \<open>
  What \<^verbatim>\<open>session.request\<close> does: it raises \<^verbatim>\<open>requests.RequestException\<close> with a
  text, or returns a response with a status code and a JSON object.
\<close>

datatype http_response = RequestException string | Response nat body

datatype exn = GitHubAPIError string nat | KeyError string

type_synonym 'a result = "exn + 'a"

text \<open>\<^verbatim>\<open>str(e)\<close>: the message of a GitHubAPIError, the quoted key of a KeyError.\<close>

fun str_exn :: "exn \<Rightarrow> string" where
  "str_exn (GitHubAPIError m c) = m"
| "str_exn (KeyError k) = [CHR 0x27] @ k @ [CHR 0x27]"

text \<open>
  The client. \<open>session\<close> is the transport together with the remote service: the
  response to a request, given the requests issued before it. \<open>sent\<close> records the
  requests issued, in order. \<open>user_cache\<close> is \<^verbatim>\<open>self._user\<close>.
\<close>

record GitHubAPI =
  session :: "request list \<Rightarrow> request \<Rightarrow> http_response"
  sent :: "request list"
  user_cache :: "string option"

definition GitHubAPI_init :: "(request list \<Rightarrow> request \<Rightarrow> http_response) \<Rightarrow> GitHubAPI" where
  "GitHubAPI_init srv = \<lparr>session = srv, sent = [], user_cache = None\<rparr>"

text \<open>Python truthiness of an optional string: \<^verbatim>\<open>None\<close> and \<^verbatim>\<open>""\<close> are false.\<close>

fun truthy :: "string option \<Rightarrow> bool" where
  "truthy None = False"
| "truthy (Some s) = (s \<noteq> [])"

text \<open>
  \<^verbatim>\<open>_request\<close> (named \<open>request_api\<close> here): the request is recorded, an exception of
  the transport and every status from 400 on become a GitHubAPIError, status 204 gives
  the empty object.
\<close>

definition request_api ::
  "string \<Rightarrow> string \<Rightarrow> payload \<Rightarrow> GitHubAPI \<Rightarrow> body result \<times> GitHubAPI" where
  "request_api m endpoint js a =
     (let rq = \<lparr>rq_method = m, rq_endpoint = endpoint, rq_json = js\<rparr>;
          a' = a\<lparr>sent := sent a @ [rq]\<rparr>
      in case session a (sent a) rq of
           RequestException msg \<Rightarrow> (Inl (GitHubAPIError (''Network error: '' @ msg) 0), a')
         | Response code data \<Rightarrow>
             if code \<ge> 400 then
               (Inl (GitHubAPIError
                  (case b_message data of None \<Rightarrow> ''Unknown error'' | Some msg \<Rightarrow> msg) code), a')
             else if code = 204 then (Inr empty_body, a')
             else (Inr data, a'))"

definition get_authenticated_user :: "GitHubAPI \<Rightarrow> string result \<times> GitHubAPI" where
  "get_authenticated_user a =
     (case request_api ''GET'' ''/user'' No_json a of
        (Inl e, a') \<Rightarrow> (Inl e, a')
      | (Inr data, a') \<Rightarrow> (Inr (case b_login data of None \<Rightarrow> [] | Some l \<Rightarrow> l), a'))"

definition user :: "GitHubAPI \<Rightarrow> string result \<times> GitHubAPI" where
  "user a =
     (if \<not> truthy (user_cache a) then
        (case get_authenticated_user a of
           (Inl e, a') \<Rightarrow> (Inl e, a')
         | (Inr u, a') \<Rightarrow> (Inr u, a'\<lparr>user_cache := Some u\<rparr>))
      else (Inr (the (user_cache a)), a))"

text \<open>
  \<^verbatim>\<open>check_repo_exists\<close>: the endpoint is built inside the \<^verbatim>\<open>try\<close>, so an error of the
  user lookup passes through the same handler as an error of the request itself.
\<close>

fun repo_exists_handler :: "exn \<Rightarrow> bool result" where
  "repo_exists_handler (GitHubAPIError m c) =
     (if c = 404 then Inr False else Inl (GitHubAPIError m c))"
| "repo_exists_handler (KeyError k) = Inl (KeyError k)"

definition check_repo_exists :: "string \<Rightarrow> GitHubAPI \<Rightarrow> bool result \<times> GitHubAPI" where
  "check_repo_exists repo_name a =
     (case user a of
        (Inl e, a1) \<Rightarrow> (repo_exists_handler e, a1)
      | (Inr u, a1) \<Rightarrow>
          (case request_api ''GET'' (''/repos/'' @ u @ ''/'' @ repo_name) No_json a1 of
             (Inl e, a2) \<Rightarrow> (repo_exists_handler e, a2)
           | (Inr data, a2) \<Rightarrow> (Inr True, a2)))"

definition create_repository :: "RepoConfig \<Rightarrow> GitHubAPI \<Rightarrow> RepoResponse result \<times> GitHubAPI" where
  "create_repository config a =
     (let js = Repo_json (rc_name config) (rc_description config)
                 (rc_visibility config = PRIVATE) (rc_has_issues config) (rc_has_wiki config)
                 (rc_has_projects config) True
                 (if rc_homepage config \<noteq> [] then Some (rc_homepage config) else None)
      in case request_api ''POST'' ''/user/repos'' js a of
           (Inl e, a1) \<Rightarrow> (Inl e, a1)
         | (Inr data, a1) \<Rightarrow>
             (case b_id data of None \<Rightarrow> (Inl (KeyError ''id''), a1) | Some i \<Rightarrow>
              (case b_name data of None \<Rightarrow> (Inl (KeyError ''name''), a1) | Some n \<Rightarrow>
              (case b_full_name data of None \<Rightarrow> (Inl (KeyError ''full_name''), a1) | Some fn \<Rightarrow>
              (case b_html_url data of None \<Rightarrow> (Inl (KeyError ''html_url''), a1) | Some h \<Rightarrow>
              (case b_clone_url data of None \<Rightarrow> (Inl (KeyError ''clone_url''), a1) | Some c \<Rightarrow>
              (case b_ssh_url data of None \<Rightarrow> (Inl (KeyError ''ssh_url''), a1) | Some s \<Rightarrow>
                (Inr \<lparr>rr_id = i, rr_name = n, rr_full_name = fn, rr_html_url = h,
                      rr_clone_url = c, rr_ssh_url = s,
                      rr_default_branch =
                        (case b_default_branch data of None \<Rightarrow> ''main'' | Some d \<Rightarrow> d)\<rparr>, a1))))))))"

definition set_topics :: "string \<Rightarrow> string list \<Rightarrow> GitHubAPI \<Rightarrow> unit result \<times> GitHubAPI" where
  "set_topics repo_name topics a =
     (if topics = [] then (Inr (), a)
      else case user a of
             (Inl e, a1) \<Rightarrow> (Inl e, a1)
           | (Inr u, a1) \<Rightarrow>
               (case request_api ''PUT'' (''/repos/'' @ u @ ''/'' @ repo_name @ ''/topics'')
                       (Topics_json topics) a1 of
                  (Inl e, a2) \<Rightarrow> (Inl e, a2)
                | (Inr data, a2) \<Rightarrow> (Inr (), a2)))"

text \<open>
  \<^verbatim>\<open>create_blob\<close>. The size test \<^verbatim>\<open>len(content) / (1024 * 1024) > MAX_FILE_SIZE_MB\<close>
  is a comparison of an exact quotient by a power of two, so it holds exactly when the
  length exceeds \<open>MAX_FILE_SIZE_MB * (1024 * 1024)\<close>. The \<^verbatim>\<open>except GitHubAPIError\<close>
  rewraps API errors of the user lookup and of the request; a KeyError of
  \<^verbatim>\<open>data["sha"]\<close> passes through it.
\<close>

fun blob_error :: "exn \<Rightarrow> exn" where
  "blob_error (GitHubAPIError m c) = GitHubAPIError (''Blob create failed: '' @ m) c"
| "blob_error (KeyError k) = KeyError k"

definition create_blob :: "string \<Rightarrow> bytes \<Rightarrow> GitHubAPI \<Rightarrow> BlobResponse result \<times> GitHubAPI" where
  "create_blob repo_name content a =
     (if length content > MAX_FILE_SIZE_MB * (1024 * 1024) then
        (Inl (GitHubAPIError (''File too large: '' @ format_size (length content)) 0), a)
      else case user a of
             (Inl e, a1) \<Rightarrow> (Inl (blob_error e), a1)
           | (Inr u, a1) \<Rightarrow>
               (case request_api ''POST'' (''/repos/'' @ u @ ''/'' @ repo_name @ ''/git/blobs'')
                       (Blob_json content) a1 of
                  (Inl e, a2) \<Rightarrow> (Inl (blob_error e), a2)
                | (Inr data, a2) \<Rightarrow>
                    (case b_sha data of None \<Rightarrow> (Inl (KeyError ''sha''), a2) | Some s \<Rightarrow>
                     (case b_url data of None \<Rightarrow> (Inl (KeyError ''url''), a2) | Some u' \<Rightarrow>
                       (Inr \<lparr>blob_sha = s, blob_url = u'\<rparr>, a2)))))"

definition create_tree ::
  "string \<Rightarrow> TreeEntry list \<Rightarrow> string option \<Rightarrow> GitHubAPI \<Rightarrow> TreeResponse result \<times> GitHubAPI" where
  "create_tree repo_name entries base_tree a =
     (let js = Tree_json entries (if truthy base_tree then base_tree else None)
      in case user a of
           (Inl e, a1) \<Rightarrow> (Inl e, a1)
         | (Inr u, a1) \<Rightarrow>
             (case request_api ''POST'' (''/repos/'' @ u @ ''/'' @ repo_name @ ''/git/trees'') js a1 of
                (Inl e, a2) \<Rightarrow> (Inl e, a2)
              | (Inr data, a2) \<Rightarrow>
                  (case b_sha data of None \<Rightarrow> (Inl (KeyError ''sha''), a2) | Some s \<Rightarrow>
                   (case b_url data of None \<Rightarrow> (Inl (KeyError ''url''), a2) | Some u' \<Rightarrow>
                     (Inr \<lparr>tree_sha = s, tree_url = u'\<rparr>, a2)))))"

text \<open>\<^verbatim>\<open>GitHubAPI.create_commit\<close> (the publisher has a method of the same name).\<close>

definition api_create_commit ::
  "string \<Rightarrow> string \<Rightarrow> string \<Rightarrow> string option \<Rightarrow> GitHubAPI \<Rightarrow> CommitResponse result \<times> GitHubAPI" where
  "api_create_commit repo_name message tree parent_sha a =
     (let js = Commit_json message tree (if truthy parent_sha then Some [the parent_sha] else None)
      in case user a of
           (Inl e, a1) \<Rightarrow> (Inl e, a1)
         | (Inr u, a1) \<Rightarrow>
             (case request_api ''POST'' (''/repos/'' @ u @ ''/'' @ repo_name @ ''/git/commits'') js a1 of
                (Inl e, a2) \<Rightarrow> (Inl e, a2)
              | (Inr data, a2) \<Rightarrow>
                  (case b_sha data of None \<Rightarrow> (Inl (KeyError ''sha''), a2) | Some s \<Rightarrow>
                   (case b_url data of None \<Rightarrow> (Inl (KeyError ''url''), a2) | Some u' \<Rightarrow>
                   (case b_html_url data of None \<Rightarrow> (Inl (KeyError ''html_url''), a2) | Some h \<Rightarrow>
                     (Inr \<lparr>cr_sha = s, cr_url = u', cr_html_url = h\<rparr>, a2))))))"

definition update_ref ::
  "string \<Rightarrow> string \<Rightarrow> string \<Rightarrow> bool \<Rightarrow> GitHubAPI \<Rightarrow> unit result \<times> GitHubAPI" where
  "update_ref repo_name ref sha force a =
     (case user a of
        (Inl e, a1) \<Rightarrow> (Inl e, a1)
      | (Inr u, a1) \<Rightarrow>
          (case request_api ''PATCH'' (''/repos/'' @ u @ ''/'' @ repo_name @ ''/git/refs/'' @ ref)
                  (Ref_update_json sha force) a1 of
             (Inl e, a2) \<Rightarrow> (Inl e, a2)
           | (Inr data, a2) \<Rightarrow> (Inr (), a2)))"

definition create_ref :: "string \<Rightarrow> string \<Rightarrow> string \<Rightarrow> GitHubAPI \<Rightarrow> unit result \<times> GitHubAPI" where
  "create_ref repo_name ref sha a =
     (case user a of
        (Inl e, a1) \<Rightarrow> (Inl e, a1)
      | (Inr u, a1) \<Rightarrow>
          (case request_api ''POST'' (''/repos/'' @ u @ ''/'' @ repo_name @ ''/git/refs'')
                  (Ref_create_json (''refs/'' @ ref) sha) a1 of
             (Inl e, a2) \<Rightarrow> (Inl e, a2)
           | (Inr data, a2) \<Rightarrow> (Inr (), a2)))"

text \<open>
  \<^verbatim>\<open>get_default_branch_sha\<close>: every GitHubAPIError raised inside the \<^verbatim>\<open>try\<close>, by
  the user lookup or by the request, becomes \<^verbatim>\<open>None\<close>; a KeyError of
  \<^verbatim>\<open>data["object"]["sha"]\<close> is not caught.
\<close>

fun branch_sha_handler :: "exn \<Rightarrow> string option result" where
  "branch_sha_handler (GitHubAPIError m c) = Inr None"
| "branch_sha_handler (KeyError k) = Inl (KeyError k)"

definition get_default_branch_sha :: "string \<Rightarrow> GitHubAPI \<Rightarrow> string option result \<times> GitHubAPI" where
  "get_default_branch_sha repo_name a =
     (case user a of
        (Inl e, a1) \<Rightarrow> (branch_sha_handler e, a1)
      | (Inr u, a1) \<Rightarrow>
          (case request_api ''GET'' (''/repos/'' @ u @ ''/'' @ repo_name @ ''/git/refs/heads/main'')
                  No_json a1 of
             (Inl e, a2) \<Rightarrow> (branch_sha_handler e, a2)
           | (Inr data, a2) \<Rightarrow>
               (case b_object data of
                  None \<Rightarrow> (Inl (KeyError ''object''), a2)
                | Some None \<Rightarrow> (Inl (KeyError ''sha''), a2)
                | Some (Some s) \<Rightarrow> (Inr (Some s), a2))))"

subsection \<open>publisher.py\<close>

text \<open>
  What the publisher finds at \<^verbatim>\<open>source_path\<close>: nothing, something that is not a
  directory, or a directory. For a directory the model holds the list that
  \<^verbatim>\<open>utils.collect_files(source_path, SKIP_PATTERNS)\<close> returns, each file with its path
  relative to the root and the outcome of \<^verbatim>\<open>read_bytes()\<close> (\<open>None\<close> when it raises).
\<close>

datatype source = Missing | Not_a_directory | Directory "(string \<times> bytes option) list"

record GitHubPublisher =
  api :: GitHubAPI
  source_path :: source
  files :: "FileEntry list"
  tree_entries :: "TreeEntry list"

definition GitHubPublisher_init ::
  "(request list \<Rightarrow> request \<Rightarrow> http_response) \<Rightarrow> source \<Rightarrow> GitHubPublisher" where
  "GitHubPublisher_init srv src =
     \<lparr>api = GitHubAPI_init srv, source_path = src, files = [], tree_entries = []\<rparr>"

fun validate_source :: "GitHubPublisher \<Rightarrow> bool" where
  "validate_source p =
     (case source_path p of Missing \<Rightarrow> False | Not_a_directory \<Rightarrow> False | Directory fs \<Rightarrow> True)"

fun file_paths :: "source \<Rightarrow> (string \<times> bytes option) list" where
  "file_paths (Directory fs) = fs"
| "file_paths Missing = []"
| "file_paths Not_a_directory = []"

text \<open>\<^verbatim>\<open>rel_path.replace("\\", "/")\<close>\<close>

definition forward_slashes :: "string \<Rightarrow> string" where
  "forward_slashes s = map (\<lambda>c. if c = CHR 0x5C then CHR ''/'' else c) s"

fun read_entries :: "(string \<times> bytes option) list \<Rightarrow> FileEntry list" where
  "read_entries [] = []"
| "read_entries ((rel_path, None) # rest) = read_entries rest"
| "read_entries ((rel_path, Some content) # rest) =
     \<lparr>fe_path = forward_slashes rel_path, fe_content = content, fe_sha = None,
      fe_status = PENDING, fe_error = None\<rparr> # read_entries rest"

definition collect_files :: "GitHubPublisher \<Rightarrow> int \<times> GitHubPublisher" where
  "collect_files p =
     (let p' = p\<lparr>files := files p @ read_entries (file_paths (source_path p))\<rparr>
      in (int (length (files p')), p'))"

text \<open>
  The loop of \<^verbatim>\<open>upload_blobs\<close>: the entries still to visit, the entries visited (as the
  loop leaves them), \<^verbatim>\<open>self.tree_entries\<close>, the counters and the client.
\<close>

fun upload_loop ::
  "string \<Rightarrow> FileEntry list \<Rightarrow> FileEntry list \<Rightarrow> TreeEntry list \<Rightarrow> int \<Rightarrow> int \<Rightarrow> GitHubAPI
     \<Rightarrow> FileEntry list \<times> TreeEntry list \<times> int \<times> int \<times> GitHubAPI" where
  "upload_loop repo_name [] visited tes uploaded failed a = (visited, tes, uploaded, failed, a)"
| "upload_loop repo_name (entry # rest) visited tes uploaded failed a =
     (case create_blob repo_name (fe_content entry) a of
        (Inr blob, a') \<Rightarrow>
          upload_loop repo_name rest
            (visited @ [entry\<lparr>fe_sha := Some (blob_sha blob), fe_status := SUCCESS\<rparr>])
            (tes @ [TreeEntry_init (fe_path entry) (blob_sha blob)])
            (uploaded + 1) failed a'
      | (Inl e, a') \<Rightarrow>
          upload_loop repo_name rest
            (visited @ [entry\<lparr>fe_status := FAILED, fe_error := Some (str_exn e)\<rparr>])
            tes uploaded (failed + 1) a')"

definition upload_blobs :: "string \<Rightarrow> GitHubPublisher \<Rightarrow> int \<times> GitHubPublisher" where
  "upload_blobs repo_name p =
     (case upload_loop repo_name (files p) [] (tree_entries p) 0 0 (api p) of
        (fs, tes, uploaded, failed, a) \<Rightarrow>
          (uploaded, p\<lparr>api := a, files := fs, tree_entries := tes\<rparr>))"

definition create_commit ::
  "string \<Rightarrow> string \<Rightarrow> GitHubPublisher \<Rightarrow> string option result \<times> GitHubPublisher" where
  "create_commit repo_name message p =
     (if tree_entries p = [] then (Inr None, p)
      else case get_default_branch_sha repo_name (api p) of
             (Inl e, a1) \<Rightarrow> (Inl e, p\<lparr>api := a1\<rparr>)
           | (Inr parent_sha, a1) \<Rightarrow>
       (case create_tree repo_name (tree_entries p) parent_sha a1 of
             (Inl e, a2) \<Rightarrow> (Inl e, p\<lparr>api := a2\<rparr>)
           | (Inr tree, a2) \<Rightarrow>
       (case api_create_commit repo_name message (tree_sha tree) parent_sha a2 of
             (Inl e, a3) \<Rightarrow> (Inl e, p\<lparr>api := a3\<rparr>)
           | (Inr commit, a3) \<Rightarrow>
       (case update_ref repo_name ''heads/main'' (cr_sha commit) True a3 of
             (Inl e, a4) \<Rightarrow> (Inl e, p\<lparr>api := a4\<rparr>)
           | (Inr u, a4) \<Rightarrow> (Inr (Some (cr_sha commit)), p\<lparr>api := a4\<rparr>)))))"

text \<open>
  \<^verbatim>\<open>publish\<close>. Both \<^verbatim>\<open>except\<close> clauses store the text of the exception in
  \<^verbatim>\<open>result.error\<close>. The body is split at its step comments: \<open>publish_commit\<close> is
  step 7, \<open>publish_upload\<close> step 6, \<open>publish_create\<close> steps 4 and 5, and \<open>publish\<close>
  itself steps 1 to 3.
\<close>

fun on_error :: "exn \<Rightarrow> PublishResult \<Rightarrow> PublishResult" where
  "on_error (GitHubAPIError m c) result = result\<lparr>error := Some m\<rparr>"
| "on_error (KeyError k) result = result\<lparr>error := Some (str_exn (KeyError k))\<rparr>"

definition publish_commit ::
  "string \<Rightarrow> string \<Rightarrow> PublishResult \<Rightarrow> GitHubPublisher \<Rightarrow> PublishResult \<times> GitHubPublisher" where
  "publish_commit repo_name commit_message result p =
     (case create_commit repo_name commit_message p of
        (Inl e, p') \<Rightarrow> (on_error e result, p')
      | (Inr sha, p') \<Rightarrow>
          (if truthy sha then (result\<lparr>commit_sha := the sha, success := True\<rparr>, p')
           else (result, p')))"

definition publish_upload ::
  "string \<Rightarrow> string \<Rightarrow> PublishResult \<Rightarrow> GitHubPublisher \<Rightarrow> PublishResult \<times> GitHubPublisher" where
  "publish_upload repo_name commit_message result p =
     (case upload_blobs repo_name p of
        (uploaded, p') \<Rightarrow>
          publish_commit repo_name commit_message
            (result\<lparr>files_uploaded := uploaded,
                    files_skipped := int (length (files p')) - uploaded\<rparr>) p')"

text \<open>The \<^verbatim>\<open>RepoConfig(...)\<close> that step 4 builds; the other fields keep their defaults.\<close>

definition publish_config ::
  "string \<Rightarrow> string \<Rightarrow> string \<Rightarrow> string list option \<Rightarrow> RepoConfig" where
  "publish_config repo_name description visibility topics =
     \<lparr>rc_name = repo_name, rc_description = description,
      rc_visibility = (if visibility = ''private'' then PRIVATE else PUBLIC),
      rc_homepage = [],
      rc_topics = (case topics of None \<Rightarrow> DEFAULT_TOPICS
                   | Some ts \<Rightarrow> if ts = [] then DEFAULT_TOPICS else ts),
      rc_has_issues = True, rc_has_wiki = False, rc_has_projects = False,
      rc_auto_init = False\<rparr>"

definition publish_create ::
  "string \<Rightarrow> string \<Rightarrow> string \<Rightarrow> string list option \<Rightarrow> string \<Rightarrow> PublishResult
     \<Rightarrow> GitHubPublisher \<Rightarrow> PublishResult \<times> GitHubPublisher" where
  "publish_create repo_name description visibility topics commit_message result p =
     (let config = publish_config repo_name description visibility topics
      in case create_repository config (api p) of
           (Inl e, a1) \<Rightarrow> (on_error e result, p\<lparr>api := a1\<rparr>)
         | (Inr repo, a1) \<Rightarrow>
             (case set_topics repo_name (rc_topics config) a1 of
                (Inl e, a2) \<Rightarrow> (on_error e (result\<lparr>repo_url := rr_html_url repo\<rparr>), p\<lparr>api := a2\<rparr>)
              | (Inr u, a2) \<Rightarrow>
                  publish_upload repo_name commit_message
                    (result\<lparr>repo_url := rr_html_url repo\<rparr>) (p\<lparr>api := a2\<rparr>)))"

definition publish ::
  "string \<Rightarrow> string \<Rightarrow> string \<Rightarrow> string list option \<Rightarrow> string \<Rightarrow> GitHubPublisher
     \<Rightarrow> PublishResult \<times> GitHubPublisher" where
  "publish repo_name description visibility topics commit_message p =
     (let result = PublishResult_init False
      in if \<not> validate_source p then (result\<lparr>error := Some ''Invalid source path''\<rparr>, p)
         else case check_repo_exists repo_name (api p) of
                (Inl e, a1) \<Rightarrow> (on_error e result, p\<lparr>api := a1\<rparr>)
              | (Inr exists, a1) \<Rightarrow>
                  if exists then
                    (result\<lparr>error := Some ''Repository already exists''\<rparr>, p\<lparr>api := a1\<rparr>)
                  else
                    (case collect_files (p\<lparr>api := a1\<rparr>) of
                       (file_count, p2) \<Rightarrow>
                         if file_count = 0 then
                           (result\<lparr>error := Some ''No files to upload''\<rparr>, p2)
                         else publish_create repo_name description visibility topics
                                commit_message result p2))"

text \<open>
  A publish run, as \<^verbatim>\<open>main.py\<close> starts it: a new publisher, then one call of
  \<^verbatim>\<open>publish\<close>.
\<close>

definition run ::
  "(request list \<Rightarrow> request \<Rightarrow> http_response) \<Rightarrow> source \<Rightarrow> string \<Rightarrow> string \<Rightarrow> string
     \<Rightarrow> string list option \<Rightarrow> string \<Rightarrow> PublishResult \<times> GitHubPublisher" where
  "run srv src repo_name description visibility topics commit_message =
     publish repo_name description visibility topics commit_message
       (GitHubPublisher_init srv src)"

subsection \<open>Reading the requests of a run\<close>

text \<open>
  The payloads of the blob, tree and commit requests in a list of requests, in the order
  they were issued, and the requests that create or move an object of the remote store.
\<close>

fun blob_of :: "payload \<Rightarrow> bytes list" where
  "blob_of (Blob_json c) = [c]"
| "blob_of j = []"

fun tree_of :: "payload \<Rightarrow> (TreeEntry list \<times> string option) list" where
  "tree_of (Tree_json es b) = [(es, b)]"
| "tree_of j = []"

fun commit_of :: "payload \<Rightarrow> (string \<times> string \<times> string list option) list" where
  "commit_of (Commit_json m t ps) = [(m, t, ps)]"
| "commit_of j = []"

fun is_creation :: "payload \<Rightarrow> bool" where
  "is_creation (Blob_json c) = True"
| "is_creation (Tree_json es b) = True"
| "is_creation (Commit_json m t ps) = True"
| "is_creation (Ref_update_json s f) = True"
| "is_creation (Ref_create_json r s) = True"
| "is_creation j = False"

definition blob_requests :: "request list \<Rightarrow> bytes list" where
  "blob_requests rs = concat (map (\<lambda>r. blob_of (rq_json r)) rs)"

definition tree_requests :: "request list \<Rightarrow> (TreeEntry list \<times> string option) list" where
  "tree_requests rs = concat (map (\<lambda>r. tree_of (rq_json r)) rs)"

definition commit_requests :: "request list \<Rightarrow> (string \<times> string \<times> string list option) list" where
  "commit_requests rs = concat (map (\<lambda>r. commit_of (rq_json r)) rs)"

definition creation_requests :: "request list \<Rightarrow> request list" where
  "creation_requests rs = filter (\<lambda>r. is_creation (rq_json r)) rs"

text \<open>The tree entries of the entries that \<^verbatim>\<open>upload_blobs\<close> left with status SUCCESS.\<close>

definition uploaded_entries :: "FileEntry list \<Rightarrow> TreeEntry list" where
  "uploaded_entries fs =
     map (\<lambda>e. TreeEntry_init (fe_path e) (the (fe_sha e)))
       (filter (\<lambda>e. fe_status e = SUCCESS) fs)"

text \<open>The client after \<^verbatim>\<open>create_blob\<close> has been called on each content of a list, in order.\<close>

definition api_after :: "string \<Rightarrow> bytes list \<Rightarrow> GitHubAPI \<Rightarrow> GitHubAPI" where
  "api_after repo_name cs a = fold (\<lambda>c a'. snd (create_blob repo_name c a')) cs a"

text \<open>
  \<open>issues P a a'\<close>: the client \<open>a'\<close> is \<open>a\<close> after some further requests, each with a
  payload that satisfies \<open>P\<close>, against the same remote.
\<close>

definition issues :: "(payload \<Rightarrow> bool) \<Rightarrow> GitHubAPI \<Rightarrow> GitHubAPI \<Rightarrow> bool" where
  "issues P a a' \<longleftrightarrow>
     session a' = session a \<and> (\<exists>new. sent a' = sent a @ new \<and> (\<forall>r\<in>set new. P (rq_json r)))"

subsection \<open>A remote for concrete runs\<close>

text \<open>
  The account \<^verbatim>\<open>octo\<close> without a repository \<^verbatim>\<open>demo\<close>. Creation succeeds; after the
  automatic initialisation the branch \<^verbatim>\<open>main\<close> points to the commit \<open>demo_head_commit\<close>,
  whose tree is \<open>demo_head_tree\<close>. Reading the ref returns the commit; the tree of a
  commit is only served by the commit endpoint, which the client never requests.
  Every blob, tree, commit and ref request is accepted.
\<close>

definition demo_head_commit :: string where
  "demo_head_commit = ''c0''"

definition demo_head_tree :: string where
  "demo_head_tree = ''t0''"

definition github_ok :: "request list \<Rightarrow> request \<Rightarrow> http_response" where
  "github_ok h rq =
     (case rq_json rq of
        No_json \<Rightarrow>
          if rq_endpoint rq = ''/user'' then Response 200 (empty_body\<lparr>b_login := Some ''octo''\<rparr>)
          else if rq_endpoint rq = ''/repos/octo/demo'' then
            Response 404 (empty_body\<lparr>b_message := Some ''Not Found''\<rparr>)
          else Response 200 (empty_body\<lparr>b_object := Some (Some demo_head_commit)\<rparr>)
      | Repo_json n d pr i w pj au hp \<Rightarrow>
          Response 201
            (empty_body\<lparr>b_id := Some 1, b_name := Some n, b_full_name := Some (''octo/'' @ n),
               b_html_url := Some (''https://github.com/octo/'' @ n),
               b_clone_url := Some (''https://github.com/octo/'' @ n @ ''.git''),
               b_ssh_url := Some (''git@github.com:octo/'' @ n @ ''.git''),
               b_default_branch := Some ''main''\<rparr>)
      | Topics_json ts \<Rightarrow> Response 200 empty_body
      | Blob_json c \<Rightarrow>
          Response 201
            (empty_body\<lparr>b_sha := Some (''blob-'' @ map (\<lambda>w. if w = 0 then CHR ''0'' else CHR ''1'') c),
               b_url := Some ''u''\<rparr>)
      | Tree_json es b \<Rightarrow> Response 201 (empty_body\<lparr>b_sha := Some ''t1'', b_url := Some ''u''\<rparr>)
      | Commit_json m t ps \<Rightarrow>
          Response 201
            (empty_body\<lparr>b_sha := Some ''k1'', b_url := Some ''u'', b_html_url := Some ''h''\<rparr>)
      | Ref_update_json s f \<Rightarrow> Response 200 (empty_body\<lparr>b_object := Some (Some s)\<rparr>)
      | Ref_create_json r s \<Rightarrow> Response 201 (empty_body\<lparr>b_object := Some (Some s)\<rparr>))"

text \<open>The same remote with some requests answered differently.\<close>

definition github ::
  "(request \<Rightarrow> http_response option) \<Rightarrow> request list \<Rightarrow> request \<Rightarrow> http_response" where
  "github override h rq = (case override rq of Some r \<Rightarrow> r | None \<Rightarrow> github_ok h rq)"

definition blob_fails :: "bytes \<Rightarrow> request \<Rightarrow> http_response option" where
  "blob_fails c rq =
     (if rq_json rq = Blob_json c then
        Some (Response 422 (empty_body\<lparr>b_message := Some ''Unprocessable''\<rparr>))
      else None)"

definition repo_exists :: "request \<Rightarrow> http_response option" where
  "repo_exists rq =
     (if rq_endpoint rq = ''/repos/octo/demo'' then
        Some (Response 200 (empty_body\<lparr>b_name := Some ''demo''\<rparr>))
      else None)"

definition topics_fail :: "request \<Rightarrow> http_response option" where
  "topics_fail rq =
     (case rq_json rq of
        Topics_json ts \<Rightarrow> Some (Response 422 (empty_body\<lparr>b_message := Some ''Validation Failed''\<rparr>))
      | _ \<Rightarrow> None)"

definition tree_fails :: "request \<Rightarrow> http_response option" where
  "tree_fails rq =
     (case rq_json rq of
        Tree_json es b \<Rightarrow> Some (Response 500 (empty_body\<lparr>b_message := Some ''Server Error''\<rparr>))
      | _ \<Rightarrow> None)"

definition head_read_fails :: "request \<Rightarrow> http_response option" where
  "head_read_fails rq =
     (if rq_endpoint rq = ''/repos/octo/demo/git/refs/heads/main'' \<and> rq_method rq = ''GET'' then
        Some (Response 403 (empty_body\<lparr>b_message := Some ''API rate limit exceeded''\<rparr>))
      else None)"

definition user_lookup_fails :: "request \<Rightarrow> http_response option" where
  "user_lookup_fails rq =
     (if rq_endpoint rq = ''/user'' then
        Some (Response 401 (empty_body\<lparr>b_message := Some ''Bad credentials''\<rparr>))
      else None)"

definition two_files :: source where
  "two_files = Directory [(''a.txt'', Some [0]), (''b.txt'', Some [1])]"

definition one_file :: source where
  "one_file = Directory [(''b.txt'', Some [1])]"

text \<open>A file of 50 MiB and one byte, and a directory that holds it beside a small file.\<close>

definition big_content :: bytes where
  "big_content = replicate 52428801 0"

definition big_and_small :: source where
  "big_and_small = Directory [(''a.txt'', Some [0]), (''big.bin'', Some big_content)]"

definition demo_run ::
  "(request list \<Rightarrow> request \<Rightarrow> http_response) \<Rightarrow> source \<Rightarrow> PublishResult \<times> GitHubPublisher" where
  "demo_run srv src = run srv src ''demo'' ''A demo'' ''public'' None ''Initial commit''"

section \<open>Auxiliary facts\<close>

lemma issues_refl: "issues P a a"
  by (simp add: issues_def)

lemma issues_trans: "issues P a b \<Longrightarrow> issues P b c \<Longrightarrow> issues P a c"
  unfolding issues_def by (elim conjE exE, simp) (metis Un_iff set_append)

lemma issues_mono: "issues P a b \<Longrightarrow> (\<And>j. P j \<Longrightarrow> Q j) \<Longrightarrow> issues Q a b"
  unfolding issues_def by blast

lemma request_api_snd:
  "snd (request_api m ep js a) = a\<lparr>sent := sent a @ [\<lparr>rq_method = m, rq_endpoint = ep, rq_json = js\<rparr>]\<rparr>"
  by (simp add: request_api_def Let_def split: http_response.splits)

lemma issues_request: "P js \<Longrightarrow> issues P a (snd (request_api m ep js a))"
  by (simp add: request_api_snd issues_def)

lemma user_snd:
  "snd (user a) = a \<or>
   snd (user a) = snd (request_api ''GET'' ''/user'' No_json a) \<or>
   (\<exists>u. snd (user a) = (snd (request_api ''GET'' ''/user'' No_json a))\<lparr>user_cache := Some u\<rparr>)"
  by (auto simp: user_def get_authenticated_user_def split: prod.splits sum.splits)

lemma issues_user: "P No_json \<Longrightarrow> issues P a (snd (user a))"
  using user_snd [of a] by (auto simp: request_api_snd issues_def)

lemma user_cached: "truthy (user_cache a) \<Longrightarrow> user a = (Inr (the (user_cache a)), a)"
  by (simp add: user_def)

text \<open>Every operation looks the user up and then issues at most one request.\<close>

lemma issues_operation:
  assumes "\<And>e a1. user a = (Inl e, a1) \<Longrightarrow> snd (f a) = a1"
    and "\<And>u a1. user a = (Inr u, a1) \<Longrightarrow> snd (f a) = snd (request_api m (ep u) js a1)"
    and "P No_json" and "P js"
  shows "issues P a (snd (f a))"
proof (cases "user a")
  case (Pair r a1)
  have base: "issues P a a1"
    using issues_user [of P a] assms(3) Pair by simp
  show ?thesis
  proof (cases r)
    case (Inl e)
    with Pair assms(1) base show ?thesis by simp
  next
    case (Inr u)
    with Pair assms(2) have "snd (f a) = snd (request_api m (ep u) js a1)" by simp
    with base issues_request [of P js a1 m "ep u"] assms(4) show ?thesis
      by (auto intro: issues_trans)
  qed
qed

lemma issues_check_repo_exists: "P No_json \<Longrightarrow> issues P a (snd (check_repo_exists repo a))"
  by (rule issues_operation [where m = "''GET''" and ep = "\<lambda>u. ''/repos/'' @ u @ ''/'' @ repo"
        and js = No_json])
     (simp_all add: check_repo_exists_def split: prod.splits sum.splits)

lemma create_repository_snd:
  "snd (create_repository config a) =
   snd (request_api ''POST'' ''/user/repos''
     (Repo_json (rc_name config) (rc_description config)
                 (rc_visibility config = PRIVATE) (rc_has_issues config) (rc_has_wiki config)
                 (rc_has_projects config) True
                 (if rc_homepage config \<noteq> [] then Some (rc_homepage config) else None)) a)"
  (is "_ = snd ?rq")
proof (cases ?rq)
  case (Pair r a1)
  show ?thesis
  proof (cases r)
    case (Inl e)
    with Pair show ?thesis by (simp add: create_repository_def)
  next
    case (Inr data)
    with Pair show ?thesis
      by (simp add: create_repository_def split: option.split)
  qed
qed

lemma issues_create_repository:
  "(\<And>n d pr i w pj au h. P (Repo_json n d pr i w pj au h)) \<Longrightarrow>
   issues P a (snd (create_repository config a))"
  by (simp add: create_repository_snd issues_request)

lemma issues_set_topics:
  "P No_json \<Longrightarrow> P (Topics_json ts) \<Longrightarrow> issues P a (snd (set_topics repo ts a))"
proof (cases "ts = []")
  case True
  then show ?thesis by (simp add: set_topics_def issues_refl)
next
  case False
  assume "P No_json" "P (Topics_json ts)"
  with False show ?thesis
    by (intro issues_operation [where m = "''PUT''"
          and ep = "\<lambda>u. ''/repos/'' @ u @ ''/'' @ repo @ ''/topics''" and js = "Topics_json ts"])
       (simp_all add: set_topics_def split: prod.splits sum.splits)
qed

lemma issues_create_blob:
  "P No_json \<Longrightarrow> P (Blob_json c) \<Longrightarrow> issues P a (snd (create_blob repo c a))"
proof (cases "length c > MAX_FILE_SIZE_MB * (1024 * 1024)")
  case True
  then show ?thesis by (simp add: create_blob_def issues_refl)
next
  case False
  assume "P No_json" "P (Blob_json c)"
  with False show ?thesis
    by (intro issues_operation [where m = "''POST''"
          and ep = "\<lambda>u. ''/repos/'' @ u @ ''/'' @ repo @ ''/git/blobs''" and js = "Blob_json c"])
       (simp_all add: create_blob_def split: prod.splits sum.splits option.splits)
qed

lemma issues_create_tree:
  "P No_json \<Longrightarrow> P (Tree_json es (if truthy b then b else None)) \<Longrightarrow>
   issues P a (snd (create_tree repo es b a))"
  by (rule issues_operation [where m = "''POST''"
        and ep = "\<lambda>u. ''/repos/'' @ u @ ''/'' @ repo @ ''/git/trees''"
        and js = "Tree_json es (if truthy b then b else None)"])
     (simp_all add: create_tree_def Let_def split: prod.splits sum.splits option.splits)

lemma issues_api_create_commit:
  "P No_json \<Longrightarrow> P (Commit_json m t (if truthy ps then Some [the ps] else None)) \<Longrightarrow>
   issues P a (snd (api_create_commit repo m t ps a))"
  by (rule issues_operation [where m = "''POST''"
        and ep = "\<lambda>u. ''/repos/'' @ u @ ''/'' @ repo @ ''/git/commits''"
        and js = "Commit_json m t (if truthy ps then Some [the ps] else None)"])
     (simp_all add: api_create_commit_def Let_def split: prod.splits sum.splits option.splits)

lemma issues_update_ref:
  "P No_json \<Longrightarrow> P (Ref_update_json s f) \<Longrightarrow> issues P a (snd (update_ref repo r s f a))"
  by (rule issues_operation [where m = "''PATCH''"
        and ep = "\<lambda>u. ''/repos/'' @ u @ ''/'' @ repo @ ''/git/refs/'' @ r"
        and js = "Ref_update_json s f"])
     (simp_all add: update_ref_def split: prod.splits sum.splits)

lemma issues_get_default_branch_sha:
  "P No_json \<Longrightarrow> issues P a (snd (get_default_branch_sha repo a))"
  by (rule issues_operation [where m = "''GET''"
        and ep = "\<lambda>u. ''/repos/'' @ u @ ''/'' @ repo @ ''/git/refs/heads/main''"
        and js = No_json])
     (simp_all add: get_default_branch_sha_def split: prod.splits sum.splits option.splits)

lemma upload_loop_acc:
  "upload_loop repo es visited tes up fl a =
     (case upload_loop repo es [] [] 0 0 a of
        (F, T, U, Fl, A) \<Rightarrow> (visited @ F, tes @ T, up + U, fl + Fl, A))"
proof (induction es arbitrary: visited tes up fl a)
  case Nil
  show ?case by simp
next
  case (Cons e es)
  obtain r a' where cb: "create_blob repo (fe_content e) a = (r, a')"
    by (cases "create_blob repo (fe_content e) a")
  obtain F T U Fl A where rec: "upload_loop repo es [] [] 0 0 a' = (F, T, U, Fl, A)"
    by (cases "upload_loop repo es [] [] 0 0 a'") auto
  show ?case
  proof (cases r)
    case (Inr blob)
    let ?e = "e\<lparr>fe_sha := Some (blob_sha blob), fe_status := SUCCESS\<rparr>"
    let ?t = "TreeEntry_init (fe_path e) (blob_sha blob)"
    have 1: "upload_loop repo (e # es) visited tes up fl a =
        ((visited @ [?e]) @ F, (tes @ [?t]) @ T, (up + 1) + U, fl + Fl, A)"
      using Cons.IH [of "visited @ [?e]" "tes @ [?t]" "up + 1" fl a'] cb Inr rec by simp
    have 2: "upload_loop repo (e # es) [] [] 0 0 a = ([?e] @ F, [?t] @ T, 1 + U, 0 + Fl, A)"
      using Cons.IH [of "[?e]" "[?t]" 1 0 a'] cb Inr rec by simp
    show ?thesis unfolding 1 2 by simp
  next
    case (Inl ex)
    let ?e = "e\<lparr>fe_status := FAILED, fe_error := Some (str_exn ex)\<rparr>"
    have 1: "upload_loop repo (e # es) visited tes up fl a =
        ((visited @ [?e]) @ F, tes @ T, up + U, (fl + 1) + Fl, A)"
      using Cons.IH [of "visited @ [?e]" tes up "fl + 1" a'] cb Inl rec by simp
    have 2: "upload_loop repo (e # es) [] [] 0 0 a = ([?e] @ F, [] @ T, 0 + U, 1 + Fl, A)"
      using Cons.IH [of "[?e]" "[]" 0 1 a'] cb Inl rec by simp
    show ?thesis unfolding 1 2 by simp
  qed
qed

lemma upload_loop_Cons_Inr:
  assumes "create_blob repo (fe_content e) a = (Inr blob, a')"
    and "upload_loop repo es [] [] 0 0 a' = (F, T, U, Fl, A)"
  shows "upload_loop repo (e # es) [] [] 0 0 a =
     (e\<lparr>fe_sha := Some (blob_sha blob), fe_status := SUCCESS\<rparr> # F,
      TreeEntry_init (fe_path e) (blob_sha blob) # T, 1 + U, Fl, A)"
  using assms
    upload_loop_acc [of repo es "[e\<lparr>fe_sha := Some (blob_sha blob), fe_status := SUCCESS\<rparr>]"
      "[TreeEntry_init (fe_path e) (blob_sha blob)]" 1 0 a']
  by simp

lemma upload_loop_Cons_Inl:
  assumes "create_blob repo (fe_content e) a = (Inl ex, a')"
    and "upload_loop repo es [] [] 0 0 a' = (F, T, U, Fl, A)"
  shows "upload_loop repo (e # es) [] [] 0 0 a =
     (e\<lparr>fe_status := FAILED, fe_error := Some (str_exn ex)\<rparr> # F, T, U, 1 + Fl, A)"
  using assms
    upload_loop_acc [of repo es "[e\<lparr>fe_status := FAILED, fe_error := Some (str_exn ex)\<rparr>]"
      "[]" 0 1 a']
  by simp

text \<open>One induction principle for all facts about the loop started with empty accumulators.\<close>

lemma upload_loop_induct [consumes 1, case_names Nil Inr Inl]:
  assumes run: "upload_loop repo es [] [] 0 0 a = (F, T, U, Fl, A)"
    and nil: "\<And>a. Q [] a [] [] 0 0 a"
    and ok: "\<And>e es a blob a' F T U Fl A.
        create_blob repo (fe_content e) a = (Inr blob, a') \<Longrightarrow>
        upload_loop repo es [] [] 0 0 a' = (F, T, U, Fl, A) \<Longrightarrow>
        Q es a' F T U Fl A \<Longrightarrow>
        Q (e # es) a (e\<lparr>fe_sha := Some (blob_sha blob), fe_status := SUCCESS\<rparr> # F)
          (TreeEntry_init (fe_path e) (blob_sha blob) # T) (1 + U) Fl A"
    and bad: "\<And>e es a ex a' F T U Fl A.
        create_blob repo (fe_content e) a = (Inl ex, a') \<Longrightarrow>
        upload_loop repo es [] [] 0 0 a' = (F, T, U, Fl, A) \<Longrightarrow>
        Q es a' F T U Fl A \<Longrightarrow>
        Q (e # es) a (e\<lparr>fe_status := FAILED, fe_error := Some (str_exn ex)\<rparr> # F)
          T U (1 + Fl) A"
  shows "Q es a F T U Fl A"
  using run
proof (induction es arbitrary: a F T U Fl A)
  case Nil
  then show ?case using nil by simp
next
  case (Cons e es)
  obtain r a' where cb: "create_blob repo (fe_content e) a = (r, a')"
    by (cases "create_blob repo (fe_content e) a")
  obtain F' T' U' Fl' A' where rec: "upload_loop repo es [] [] 0 0 a' = (F', T', U', Fl', A')"
    by (cases "upload_loop repo es [] [] 0 0 a'") auto
  show ?case
  proof (cases r)
    case (Inr blob)
    from upload_loop_Cons_Inr [OF cb [unfolded Inr] rec] Cons.prems
    have eq: "(F, T, U, Fl, A) =
        (e\<lparr>fe_sha := Some (blob_sha blob), fe_status := SUCCESS\<rparr> # F',
         TreeEntry_init (fe_path e) (blob_sha blob) # T', 1 + U', Fl', A')"
      by simp
    from ok [OF cb [unfolded Inr] rec Cons.IH [OF rec]] eq show ?thesis by simp
  next
    case (Inl ex)
    from upload_loop_Cons_Inl [OF cb [unfolded Inl] rec] Cons.prems
    have eq: "(F, T, U, Fl, A) =
        (e\<lparr>fe_status := FAILED, fe_error := Some (str_exn ex)\<rparr> # F', T', U', 1 + Fl', A')"
      by simp
    from bad [OF cb [unfolded Inl] rec Cons.IH [OF rec]] eq show ?thesis by simp
  qed
qed

lemma uploaded_entries_Cons_SUCCESS:
  "uploaded_entries (e\<lparr>fe_sha := Some s, fe_status := SUCCESS\<rparr> # F) =
     TreeEntry_init (fe_path e) s # uploaded_entries F"
  by (simp add: uploaded_entries_def)

lemma uploaded_entries_Cons_FAILED:
  "uploaded_entries (e\<lparr>fe_status := FAILED, fe_error := x\<rparr> # F) = uploaded_entries F"
  by (simp add: uploaded_entries_def)

lemma api_after_Cons: "api_after repo (c # cs) a = api_after repo cs (snd (create_blob repo c a))"
  by (simp add: api_after_def)

lemma api_after_Nil: "api_after repo [] a = a"
  by (simp add: api_after_def)

lemma upload_loop_shape:
  assumes "upload_loop repo es [] [] 0 0 a = (F, T, U, Fl, A)"
  shows "length F = length es \<and> map fe_path F = map fe_path es \<and>
         map fe_content F = map fe_content es"
  using assms by (induction rule: upload_loop_induct) simp_all

lemma upload_loop_status:
  assumes "upload_loop repo es [] [] 0 0 a = (F, T, U, Fl, A)"
  shows "\<forall>e\<in>set F. (fe_status e = SUCCESS \<and> fe_sha e \<noteq> None) \<or>
                    (fe_status e = FAILED \<and> fe_error e \<noteq> None)"
  using assms by (induction rule: upload_loop_induct) simp_all

lemma upload_loop_tree:
  assumes "upload_loop repo es [] [] 0 0 a = (F, T, U, Fl, A)"
  shows "T = uploaded_entries F"
  using assms
  by (induction rule: upload_loop_induct)
     (simp_all add: uploaded_entries_Cons_SUCCESS uploaded_entries_Cons_FAILED,
      simp add: uploaded_entries_def)

lemma upload_loop_counts:
  assumes "upload_loop repo es [] [] 0 0 a = (F, T, U, Fl, A)"
  shows "U = int (length (filter (\<lambda>e. fe_status e = SUCCESS) F)) \<and>
         Fl = int (length (filter (\<lambda>e. fe_status e = FAILED) F))"
  using assms by (induction rule: upload_loop_induct) simp_all

lemma upload_loop_api:
  assumes "upload_loop repo es [] [] 0 0 a = (F, T, U, Fl, A)"
  shows "A = api_after repo (map fe_content es) a"
  using assms by (induction rule: upload_loop_induct) (simp_all add: api_after_Cons api_after_Nil)

lemma upload_loop_issues:
  assumes "upload_loop repo es [] [] 0 0 a = (F, T, U, Fl, A)"
    and "P No_json" and "\<And>c. P (Blob_json c)"
  shows "issues P a A"
  using assms
proof (induction rule: upload_loop_induct)
  case (Nil a)
  show ?case by (rule issues_refl)
next
  case (Inr e es a blob a' F T U Fl A)
  from issues_create_blob [of P "fe_content e" a repo] Inr have "issues P a a'" by simp
  with Inr show ?case by (auto intro: issues_trans)
next
  case (Inl e es a ex a' F T U Fl A)
  from issues_create_blob [of P "fe_content e" a repo] Inl have "issues P a a'" by simp
  with Inl show ?case by (auto intro: issues_trans)
qed

text \<open>The entry at each position records the outcome of its own \<open>create_blob\<close> call.\<close>

lemma upload_loop_nth:
  assumes "upload_loop repo es [] [] 0 0 a = (F, T, U, Fl, A)"
  shows "\<forall>i<length es.
      (\<forall>blob a'. create_blob repo (fe_content (es ! i))
                    (api_after repo (map fe_content (take i es)) a) = (Inr blob, a') \<longrightarrow>
         F ! i = (es ! i)\<lparr>fe_sha := Some (blob_sha blob), fe_status := SUCCESS\<rparr>) \<and>
      (\<forall>ex a'. create_blob repo (fe_content (es ! i))
                    (api_after repo (map fe_content (take i es)) a) = (Inl ex, a') \<longrightarrow>
         F ! i = (es ! i)\<lparr>fe_status := FAILED, fe_error := Some (str_exn ex)\<rparr>)"
  using assms
proof (induction rule: upload_loop_induct)
  case (Nil a)
  show ?case by simp
next
  case (Inr e es a blob a' F T U Fl A)
  show ?case
  proof (intro allI impI)
    fix i assume "i < length (e # es)"
    then show "(\<forall>blob' a''. create_blob repo (fe_content ((e # es) ! i))
                    (api_after repo (map fe_content (take i (e # es))) a) = (Inr blob', a'') \<longrightarrow>
         (e\<lparr>fe_sha := Some (blob_sha blob), fe_status := SUCCESS\<rparr> # F) ! i =
           ((e # es) ! i)\<lparr>fe_sha := Some (blob_sha blob'), fe_status := SUCCESS\<rparr>) \<and>
      (\<forall>ex a''. create_blob repo (fe_content ((e # es) ! i))
                    (api_after repo (map fe_content (take i (e # es))) a) = (Inl ex, a'') \<longrightarrow>
         (e\<lparr>fe_sha := Some (blob_sha blob), fe_status := SUCCESS\<rparr> # F) ! i =
           ((e # es) ! i)\<lparr>fe_status := FAILED, fe_error := Some (str_exn ex)\<rparr>)"
      using Inr by (cases i) (simp_all add: api_after_Nil api_after_Cons)
  qed
next
  case (Inl e es a ex a' F T U Fl A)
  show ?case
  proof (intro allI impI)
    fix i assume "i < length (e # es)"
    then show "(\<forall>blob' a''. create_blob repo (fe_content ((e # es) ! i))
                    (api_after repo (map fe_content (take i (e # es))) a) = (Inr blob', a'') \<longrightarrow>
         (e\<lparr>fe_status := FAILED, fe_error := Some (str_exn ex)\<rparr> # F) ! i =
           ((e # es) ! i)\<lparr>fe_sha := Some (blob_sha blob'), fe_status := SUCCESS\<rparr>) \<and>
      (\<forall>ex' a''. create_blob repo (fe_content ((e # es) ! i))
                    (api_after repo (map fe_content (take i (e # es))) a) = (Inl ex', a'') \<longrightarrow>
         (e\<lparr>fe_status := FAILED, fe_error := Some (str_exn ex)\<rparr> # F) ! i =
           ((e # es) ! i)\<lparr>fe_status := FAILED, fe_error := Some (str_exn ex')\<rparr>)"
      using Inl by (cases i) (simp_all add: api_after_Nil api_after_Cons)
  qed
qed

lemma create_blob_too_large:
  "length c > MAX_FILE_SIZE_MB * (1024 * 1024) \<Longrightarrow>
   create_blob repo c a =
     (Inl (GitHubAPIError (''File too large: '' @ format_size (length c)) 0), a)"
  by (simp add: create_blob_def)

lemma create_blob_cached:
  assumes "truthy (user_cache a)" and "\<not> length c > MAX_FILE_SIZE_MB * (1024 * 1024)"
  shows "snd (create_blob repo c a) =
     a\<lparr>sent := sent a @
       [\<lparr>rq_method = ''POST'',
         rq_endpoint = ''/repos/'' @ the (user_cache a) @ ''/'' @ repo @ ''/git/blobs'',
         rq_json = Blob_json c\<rparr>]\<rparr>"
proof -
  let ?rq = "request_api ''POST'' (''/repos/'' @ the (user_cache a) @ ''/'' @ repo @ ''/git/blobs'')
               (Blob_json c) a"
  have "snd (create_blob repo c a) = snd ?rq"
    using assms
    by (cases ?rq) (simp add: create_blob_def user_cached split: sum.splits option.splits)
  then show ?thesis by (simp add: request_api_snd)
qed

lemma blob_requests_append: "blob_requests (xs @ ys) = blob_requests xs @ blob_requests ys"
  by (simp add: blob_requests_def)

lemma tree_requests_append: "tree_requests (xs @ ys) = tree_requests xs @ tree_requests ys"
  by (simp add: tree_requests_def)

lemma commit_requests_append: "commit_requests (xs @ ys) = commit_requests xs @ commit_requests ys"
  by (simp add: commit_requests_def)

lemma creation_requests_append:
  "creation_requests (xs @ ys) = creation_requests xs @ creation_requests ys"
  by (simp add: creation_requests_def)

lemma api_after_cached:
  "truthy (user_cache a) \<Longrightarrow>
   user_cache (api_after repo cs a) = user_cache a \<and>
   blob_requests (sent (api_after repo cs a)) =
     blob_requests (sent a) @
       filter (\<lambda>c. \<not> length c > MAX_FILE_SIZE_MB * (1024 * 1024)) cs"
proof (induction cs arbitrary: a)
  case Nil
  show ?case by (simp add: api_after_Nil)
next
  case (Cons c cs)
  show ?case
  proof (cases "length c > MAX_FILE_SIZE_MB * (1024 * 1024)")
    case True
    with Cons show ?thesis by (simp add: api_after_Cons create_blob_too_large)
  next
    case False
    let ?a = "snd (create_blob repo c a)"
    from create_blob_cached [OF Cons.prems False, of repo]
    have a: "user_cache ?a = user_cache a"
      "blob_requests (sent ?a) = blob_requests (sent a) @ [c]"
      by (simp_all add: blob_requests_append) (simp add: blob_requests_def)
    with Cons.IH [of ?a] Cons.prems False show ?thesis
      by (simp add: api_after_Cons)
  qed
qed

lemma upload_blobs_eq:
  "upload_blobs repo p =
     (case upload_loop repo (files p) [] [] 0 0 (api p) of
        (F, T, U, Fl, A) \<Rightarrow> (U, p\<lparr>api := A, files := F, tree_entries := tree_entries p @ T\<rparr>))"
  unfolding upload_blobs_def
  by (subst upload_loop_acc) (simp split: prod.splits)

lemma upload_blobsE:
  assumes "upload_blobs repo p = (n, p')"
  obtains F T U Fl A where
    "upload_loop repo (files p) [] [] 0 0 (api p) = (F, T, U, Fl, A)"
    "n = U" "p' = p\<lparr>api := A, files := F, tree_entries := tree_entries p @ T\<rparr>"
  using assms unfolding upload_blobs_eq
  by (cases "upload_loop repo (files p) [] [] 0 0 (api p)") auto

lemma create_commit_frame:
  "files (snd (create_commit repo msg p)) = files p \<and>
   tree_entries (snd (create_commit repo msg p)) = tree_entries p \<and>
   source_path (snd (create_commit repo msg p)) = source_path p"
  by (simp add: create_commit_def split: prod.splits sum.splits)

lemma issues_create_commit:
  assumes n: "P No_json"
    and t: "\<And>b. P (Tree_json (tree_entries p) b)"
    and c: "\<And>m t ps. P (Commit_json m t ps)"
    and r: "\<And>s f. P (Ref_update_json s f)"
  shows "issues P (api p) (api (snd (create_commit repo msg p)))"
proof (cases "tree_entries p = []")
  case True
  then show ?thesis by (simp add: create_commit_def issues_refl)
next
  case False
  obtain r1 a1 where g: "get_default_branch_sha repo (api p) = (r1, a1)"
    by (cases "get_default_branch_sha repo (api p)")
  have i1: "issues P (api p) a1"
    using issues_get_default_branch_sha [of P "api p" repo] n g by simp
  show ?thesis
  proof (cases r1)
    case (Inl e)
    with False g i1 show ?thesis by (simp add: create_commit_def)
  next
    case parent: (Inr parent)
    obtain r2 a2 where ct: "create_tree repo (tree_entries p) parent a1 = (r2, a2)"
      by (cases "create_tree repo (tree_entries p) parent a1")
    have i2: "issues P (api p) a2"
      using issues_create_tree [of P "tree_entries p" parent a1 repo] n t ct i1
        by (auto intro: issues_trans)
    show ?thesis
    proof (cases r2)
      case (Inl e)
      with False g parent ct i2 show ?thesis by (simp add: create_commit_def)
    next
      case tree: (Inr tree)
      obtain r3 a3 where cc: "api_create_commit repo msg (tree_sha tree) parent a2 = (r3, a3)"
        by (cases "api_create_commit repo msg (tree_sha tree) parent a2")
      have i3: "issues P (api p) a3"
        using issues_api_create_commit [of P msg "tree_sha tree" parent a2 repo] n c cc i2
        by (auto intro: issues_trans)
      show ?thesis
      proof (cases r3)
        case (Inl e)
        with False g parent ct tree cc i3 show ?thesis by (simp add: create_commit_def)
      next
        case commit: (Inr commit)
        obtain r4 a4 where ur: "update_ref repo ''heads/main'' (cr_sha commit) True a3 = (r4, a4)"
          by (cases "update_ref repo ''heads/main'' (cr_sha commit) True a3")
        have i4: "issues P (api p) a4"
          using issues_update_ref [of P "cr_sha commit" True a3 repo "''heads/main''"] n r ur i3
          by (auto intro: issues_trans)
        from False g parent ct tree cc commit ur i4 show ?thesis
          by (cases r4) (simp_all add: create_commit_def)
      qed
    qed
  qed
qed

lemma issues_blob_requests:
  assumes "issues P a a'" and "\<And>j. P j \<Longrightarrow> blob_of j = []"
  shows "blob_requests (sent a') = blob_requests (sent a)"
proof -
  from assms(1) obtain new where new: "sent a' = sent a @ new" "\<forall>r\<in>set new. P (rq_json r)"
    unfolding issues_def by blast
  from new(2) assms(2) have "blob_requests new = []"
    by (induction new) (simp_all add: blob_requests_def)
  with new(1) show ?thesis by (simp add: blob_requests_append)
qed

lemma issues_creation_requests:
  assumes "issues P a a'" and "\<And>j. P j \<Longrightarrow> \<not> is_creation j"
  shows "creation_requests (sent a') = creation_requests (sent a)"
proof -
  from assms(1) obtain new where new: "sent a' = sent a @ new" "\<forall>r\<in>set new. P (rq_json r)"
    unfolding issues_def by blast
  from new(2) assms(2) have "creation_requests new = []"
    by (induction new) (simp_all add: creation_requests_def)
  with new(1) show ?thesis by (simp add: creation_requests_append)
qed

lemma tree_of_mem: "(es, b) \<in> set (tree_of j) \<longleftrightarrow> j = Tree_json es b"
  by (cases j) auto

lemma commit_of_mem: "(m, t, ps) \<in> set (commit_of j) \<longleftrightarrow> j = Commit_json m t ps"
  by (cases j) auto

lemma tree_requests_mem:
  "(es, b) \<in> set (tree_requests rs) \<longleftrightarrow> (\<exists>r\<in>set rs. rq_json r = Tree_json es b)"
  by (auto simp: tree_requests_def tree_of_mem)

lemma commit_requests_mem:
  "(m, t, ps) \<in> set (commit_requests rs) \<longleftrightarrow> (\<exists>r\<in>set rs. rq_json r = Commit_json m t ps)"
  by (auto simp: commit_requests_def commit_of_mem)

lemma issues_tree_requests:
  assumes "issues P a a'" and "\<And>es b. P (Tree_json es b) \<Longrightarrow> Q es b"
    and "\<forall>(es, b)\<in>set (tree_requests (sent a)). Q es b"
  shows "\<forall>(es, b)\<in>set (tree_requests (sent a')). Q es b"
proof -
  from assms(1) obtain new where new: "sent a' = sent a @ new" "\<forall>r\<in>set new. P (rq_json r)"
    unfolding issues_def by blast
  show ?thesis
  proof (clarify)
    fix es b assume "(es, b) \<in> set (tree_requests (sent a'))"
    then consider "(es, b) \<in> set (tree_requests (sent a))"
      | r where "r \<in> set new" "rq_json r = Tree_json es b"
      using new(1) by (auto simp: tree_requests_mem)
    then show "Q es b"
    proof cases
      case 1
      with assms(3) show ?thesis by auto
    next
      case 2
      with new(2) assms(2) show ?thesis by force
    qed
  qed
qed

lemma issues_commit_requests:
  assumes "issues P a a'" and "\<And>m t ps. P (Commit_json m t ps) \<Longrightarrow> Q m t ps"
    and "\<forall>(m, t, ps)\<in>set (commit_requests (sent a)). Q m t ps"
  shows "\<forall>(m, t, ps)\<in>set (commit_requests (sent a')). Q m t ps"
proof -
  from assms(1) obtain new where new: "sent a' = sent a @ new" "\<forall>r\<in>set new. P (rq_json r)"
    unfolding issues_def by blast
  show ?thesis
  proof (clarify)
    fix m t ps assume "(m, t, ps) \<in> set (commit_requests (sent a'))"
    then consider "(m, t, ps) \<in> set (commit_requests (sent a))"
      | r where "r \<in> set new" "rq_json r = Commit_json m t ps"
      using new(1) by (auto simp: commit_requests_mem)
    then show "Q m t ps"
    proof cases
      case 1
      with assms(3) show ?thesis by auto
    next
      case 2
      with new(2) assms(2) show ?thesis by force
    qed
  qed
qed

lemma int_add_eq_0: "int m + int n = 0 \<longleftrightarrow> m = 0 \<and> n = 0"
  by linarith

lemma publish_invalid:
  "\<not> validate_source p \<Longrightarrow>
   publish repo d v t msg p =
     ((PublishResult_init False)\<lparr>error := Some ''Invalid source path''\<rparr>, p)"
  by (simp add: publish_def)

lemma publish_exists:
  "validate_source p \<Longrightarrow> check_repo_exists repo (api p) = (Inr True, a1) \<Longrightarrow>
   publish repo d v t msg p =
     ((PublishResult_init False)\<lparr>error := Some ''Repository already exists''\<rparr>, p\<lparr>api := a1\<rparr>)"
  by (simp add: publish_def)

lemma publish_check_raises:
  "validate_source p \<Longrightarrow> check_repo_exists repo (api p) = (Inl e, a1) \<Longrightarrow>
   publish repo d v t msg p = (on_error e (PublishResult_init False), p\<lparr>api := a1\<rparr>)"
  by (simp add: publish_def)

lemma publish_no_files:
  "validate_source p \<Longrightarrow> check_repo_exists repo (api p) = (Inr False, a1) \<Longrightarrow>
   files p @ read_entries (file_paths (source_path p)) = [] \<Longrightarrow>
   publish repo d v t msg p =
     ((PublishResult_init False)\<lparr>error := Some ''No files to upload''\<rparr>,
      p\<lparr>api := a1, files := []\<rparr>)"
  by (simp add: publish_def collect_files_def int_add_eq_0)

lemma publish_reaches_create:
  "validate_source p \<Longrightarrow> check_repo_exists repo (api p) = (Inr False, a1) \<Longrightarrow>
   files p @ read_entries (file_paths (source_path p)) \<noteq> [] \<Longrightarrow>
   publish repo d v t msg p =
     publish_create repo d v t msg (PublishResult_init False)
       (p\<lparr>api := a1, files := files p @ read_entries (file_paths (source_path p))\<rparr>)"
  by (auto simp: publish_def collect_files_def Let_def int_add_eq_0)

lemma publish_create_fails:
  "create_repository (publish_config repo d v t) (api p) = (Inl e, a2) \<Longrightarrow>
   publish_create repo d v t msg r p = (on_error e r, p\<lparr>api := a2\<rparr>)"
  by (simp add: publish_create_def)

lemma publish_create_topics_fail:
  "create_repository (publish_config repo d v t) (api p) = (Inr rr, a2) \<Longrightarrow>
   set_topics repo (rc_topics (publish_config repo d v t)) a2 = (Inl e, a3) \<Longrightarrow>
   publish_create repo d v t msg r p =
     (on_error e (r\<lparr>repo_url := rr_html_url rr\<rparr>), p\<lparr>api := a3\<rparr>)"
  by (simp add: publish_create_def)

lemma publish_create_reaches_upload:
  "create_repository (publish_config repo d v t) (api p) = (Inr rr, a2) \<Longrightarrow>
   set_topics repo (rc_topics (publish_config repo d v t)) a2 = (Inr u, a3) \<Longrightarrow>
   publish_create repo d v t msg r p =
     publish_upload repo msg (r\<lparr>repo_url := rr_html_url rr\<rparr>) (p\<lparr>api := a3\<rparr>)"
  by (simp add: publish_create_def)

lemma success_on_error: "success (on_error e r) = success r"
  by (cases e) simp_all

lemma error_on_error: "error (on_error e r) = Some (str_exn e)"
  by (cases e) simp_all

lemma request_api_raises:
  "request_api m ep js a = (Inl e, a') \<Longrightarrow> \<exists>msg code. e = GitHubAPIError msg code"
  by (auto simp: request_api_def Let_def split: http_response.splits if_splits)

lemma request_api_error_response:
  assumes "session a (sent a) \<lparr>rq_method = m, rq_endpoint = ep, rq_json = js\<rparr> = resp"
    and "(\<exists>txt. resp = RequestException txt) \<or> (\<exists>code data. resp = Response code data \<and> 400 \<le> code)"
  shows "\<exists>msg code. fst (request_api m ep js a) = Inl (GitHubAPIError msg code)"
  using assms by (auto simp: request_api_def Let_def)

lemma branch_sha_handler_no_api_error: "branch_sha_handler e \<noteq> Inl (GitHubAPIError m c)"
  by (cases e) simp_all

lemma get_default_branch_sha_no_api_error:
  "fst (get_default_branch_sha repo a) \<noteq> Inl (GitHubAPIError m c)"
  by (simp add: get_default_branch_sha_def branch_sha_handler_no_api_error
      split: prod.splits sum.splits option.splits)

lemma get_default_branch_sha_cached:
  assumes "truthy (user_cache a)"
  shows "get_default_branch_sha repo a =
     (case request_api ''GET''
             (''/repos/'' @ the (user_cache a) @ ''/'' @ repo @ ''/git/refs/heads/main'')
             No_json a of
        (Inl e, a2) \<Rightarrow> (branch_sha_handler e, a2)
      | (Inr data, a2) \<Rightarrow>
          (case b_object data of
             None \<Rightarrow> (Inl (KeyError ''object''), a2)
           | Some None \<Rightarrow> (Inl (KeyError ''sha''), a2)
           | Some (Some s) \<Rightarrow> (Inr (Some s), a2)))"
  using assms by (simp add: get_default_branch_sha_def user_cached)

lemma get_default_branch_sha_error_response:
  assumes "truthy (user_cache a)"
    and "session a (sent a)
           \<lparr>rq_method = ''GET'',
            rq_endpoint = ''/repos/'' @ the (user_cache a) @ ''/'' @ repo @ ''/git/refs/heads/main'',
            rq_json = No_json\<rparr> = resp"
    and "(\<exists>txt. resp = RequestException txt) \<or> (\<exists>code data. resp = Response code data \<and> 400 \<le> code)"
  shows "get_default_branch_sha repo a =
     (Inr None,
      a\<lparr>sent := sent a @
        [\<lparr>rq_method = ''GET'',
          rq_endpoint = ''/repos/'' @ the (user_cache a) @ ''/'' @ repo @ ''/git/refs/heads/main'',
          rq_json = No_json\<rparr>]\<rparr>)"
  using assms(2,3) unfolding get_default_branch_sha_cached [OF assms(1)]
  by (auto simp: request_api_def Let_def)

lemma get_default_branch_sha_ok_response:
  assumes "truthy (user_cache a)"
    and "session a (sent a)
           \<lparr>rq_method = ''GET'',
            rq_endpoint = ''/repos/'' @ the (user_cache a) @ ''/'' @ repo @ ''/git/refs/heads/main'',
            rq_json = No_json\<rparr> = Response code data"
    and "code < 400" and "code \<noteq> 204" and "b_object data = Some (Some s)"
  shows "get_default_branch_sha repo a =
     (Inr (Some s),
      a\<lparr>sent := sent a @
        [\<lparr>rq_method = ''GET'',
          rq_endpoint = ''/repos/'' @ the (user_cache a) @ ''/'' @ repo @ ''/git/refs/heads/main'',
          rq_json = No_json\<rparr>]\<rparr>)"
  using assms(2-) unfolding get_default_branch_sha_cached [OF assms(1)]
  by (simp add: request_api_def Let_def)

lemma issues_create_commit_from_head:
  assumes ne: "tree_entries p \<noteq> []"
    and g: "get_default_branch_sha repo (api p) = (Inr parent, a1)"
    and n: "P No_json"
    and t: "P (Tree_json (tree_entries p) (if truthy parent then parent else None))"
    and c: "\<And>m t. P (Commit_json m t (if truthy parent then Some [the parent] else None))"
    and r: "\<And>s f. P (Ref_update_json s f)"
  shows "issues P a1 (api (snd (create_commit repo msg p)))"
proof -
  obtain r2 a2 where ct: "create_tree repo (tree_entries p) parent a1 = (r2, a2)"
    by (cases "create_tree repo (tree_entries p) parent a1")
  have i2: "issues P a1 a2"
    using issues_create_tree [of P "tree_entries p" parent a1 repo] n t ct by simp
  show ?thesis
  proof (cases r2)
    case (Inl e)
    with ne g ct i2 show ?thesis by (simp add: create_commit_def)
  next
    case tree: (Inr tree)
    obtain r3 a3 where cc: "api_create_commit repo msg (tree_sha tree) parent a2 = (r3, a3)"
      by (cases "api_create_commit repo msg (tree_sha tree) parent a2")
    have i3: "issues P a1 a3"
      using issues_api_create_commit [of P msg "tree_sha tree" parent a2 repo] n c cc i2
      by (auto intro: issues_trans)
    show ?thesis
    proof (cases r3)
      case (Inl e)
      with ne g ct tree cc i3 show ?thesis by (simp add: create_commit_def)
    next
      case commit: (Inr commit)
      obtain r4 a4 where ur: "update_ref repo ''heads/main'' (cr_sha commit) True a3 = (r4, a4)"
        by (cases "update_ref repo ''heads/main'' (cr_sha commit) True a3")
      have i4: "issues P a1 a4"
        using issues_update_ref [of P "cr_sha commit" True a3 repo "''heads/main''"] n r ur i3
        by (auto intro: issues_trans)
      from ne g ct tree cc commit ur i4 show ?thesis
        by (cases r4) (simp_all add: create_commit_def)
    qed
  qed
qed

text \<open>The requests of \<open>create_commit\<close> after the head has been read.\<close>

lemma create_commit_requests:
  assumes ne: "tree_entries p \<noteq> []"
    and g: "get_default_branch_sha repo (api p) = (Inr parent, a1)"
  shows "\<exists>new. sent (api (snd (create_commit repo msg p))) = sent a1 @ new \<and>
           (\<forall>(es, b)\<in>set (tree_requests new).
              es = tree_entries p \<and> b = (if truthy parent then parent else None)) \<and>
           (\<forall>(m, t, ps)\<in>set (commit_requests new).
              ps = (if truthy parent then Some [the parent] else None))"
proof -
  let ?P = "\<lambda>j. (\<forall>es b. j = Tree_json es b \<longrightarrow>
                      es = tree_entries p \<and> b = (if truthy parent then parent else None)) \<and>
                 (\<forall>m t ps. j = Commit_json m t ps \<longrightarrow>
                      ps = (if truthy parent then Some [the parent] else None))"
  have "issues ?P a1 (api (snd (create_commit repo msg p)))"
    by (rule issues_create_commit_from_head [OF ne g]) simp_all
  then obtain new where new: "sent (api (snd (create_commit repo msg p))) = sent a1 @ new"
      "\<forall>r\<in>set new. ?P (rq_json r)"
    unfolding issues_def by blast
  from new(2) have "\<forall>(es, b)\<in>set (tree_requests new).
      es = tree_entries p \<and> b = (if truthy parent then parent else None)"
    by (auto simp: tree_requests_mem)
  moreover from new(2) have "\<forall>(m, t, ps)\<in>set (commit_requests new).
      ps = (if truthy parent then Some [the parent] else None)"
    by (auto simp: commit_requests_mem)
  ultimately show ?thesis using new(1) by blast
qed

lemma issues_no_tree_requests:
  assumes "issues P a a'" and "\<And>j. P j \<Longrightarrow> tree_of j = []"
  shows "tree_requests (sent a') = tree_requests (sent a)"
proof -
  from assms(1) obtain new where new: "sent a' = sent a @ new" "\<forall>r\<in>set new. P (rq_json r)"
    unfolding issues_def by blast
  from new(2) assms(2) have "tree_requests new = []"
    by (induction new) (simp_all add: tree_requests_def)
  with new(1) show ?thesis by (simp add: tree_requests_append)
qed

lemma read_entries_pending: "\<forall>e\<in>set (read_entries fs). fe_status e = PENDING"
  by (induction fs rule: read_entries.induct) simp_all

lemma uploaded_entries_none:
  "\<forall>e\<in>set fs. fe_status e \<noteq> SUCCESS \<Longrightarrow> uploaded_entries fs = []"
  by (induction fs) (simp_all add: uploaded_entries_def)

lemma publish_commit_snd:
  "snd (publish_commit repo msg r p) = snd (create_commit repo msg p)"
  by (simp add: publish_commit_def split: prod.splits sum.splits)

lemma publish_upload_snd:
  "snd (publish_upload repo msg r p) = snd (create_commit repo msg (snd (upload_blobs repo p)))"
  by (simp add: publish_upload_def publish_commit_snd split: prod.splits)

lemma upload_blobs_facts:
  assumes "upload_blobs repo p = (n, p')"
  shows "tree_entries p' = tree_entries p @ uploaded_entries (files p')"
    and "length (files p') = length (files p)"
    and "map fe_content (files p') = map fe_content (files p)"
    and "map fe_path (files p') = map fe_path (files p)"
    and "api p' = api_after repo (map fe_content (files p)) (api p)"
    and "n = int (length (filter (\<lambda>e. fe_status e = SUCCESS) (files p')))"
    and "source_path p' = source_path p"
    and "\<forall>e\<in>set (files p'). (fe_status e = SUCCESS \<and> fe_sha e \<noteq> None) \<or>
                               (fe_status e = FAILED \<and> fe_error e \<noteq> None)"
proof -
  from assms obtain F T U Fl A where
    loop: "upload_loop repo (files p) [] [] 0 0 (api p) = (F, T, U, Fl, A)"
    and n: "n = U" and p': "p' = p\<lparr>api := A, files := F, tree_entries := tree_entries p @ T\<rparr>"
    by (rule upload_blobsE)
  from upload_loop_tree [OF loop] p'
  show "tree_entries p' = tree_entries p @ uploaded_entries (files p')" by simp
  from upload_loop_shape [OF loop] p'
  show "length (files p') = length (files p)"
    and "map fe_content (files p') = map fe_content (files p)"
    and "map fe_path (files p') = map fe_path (files p)" by simp_all
  from upload_loop_api [OF loop] p'
  show "api p' = api_after repo (map fe_content (files p)) (api p)" by simp
  from upload_loop_counts [OF loop] n p'
  show "n = int (length (filter (\<lambda>e. fe_status e = SUCCESS) (files p')))" by simp
  from p' show "source_path p' = source_path p" by simp
  from upload_loop_status [OF loop] p'
  show "\<forall>e\<in>set (files p'). (fe_status e = SUCCESS \<and> fe_sha e \<noteq> None) \<or>
                               (fe_status e = FAILED \<and> fe_error e \<noteq> None)" by simp
qed

lemma upload_blobs_nth:
  assumes "upload_blobs repo p = (n, p')" and "i < length (files p)"
  shows "create_blob repo (fe_content (files p ! i))
           (api_after repo (map fe_content (take i (files p))) (api p)) = (Inr blob, a') \<Longrightarrow>
         files p' ! i = (files p ! i)\<lparr>fe_sha := Some (blob_sha blob), fe_status := SUCCESS\<rparr>"
    and "create_blob repo (fe_content (files p ! i))
           (api_after repo (map fe_content (take i (files p))) (api p)) = (Inl ex, a') \<Longrightarrow>
         files p' ! i = (files p ! i)\<lparr>fe_status := FAILED, fe_error := Some (str_exn ex)\<rparr>"
proof -
  from assms(1) obtain F T U Fl A where
    loop: "upload_loop repo (files p) [] [] 0 0 (api p) = (F, T, U, Fl, A)"
    and p': "p' = p\<lparr>api := A, files := F, tree_entries := tree_entries p @ T\<rparr>"
    by (rule upload_blobsE)
  from upload_loop_nth [OF loop] assms(2) p'
  show "create_blob repo (fe_content (files p ! i))
           (api_after repo (map fe_content (take i (files p))) (api p)) = (Inr blob, a') \<Longrightarrow>
         files p' ! i = (files p ! i)\<lparr>fe_sha := Some (blob_sha blob), fe_status := SUCCESS\<rparr>"
    and "create_blob repo (fe_content (files p ! i))
           (api_after repo (map fe_content (take i (files p))) (api p)) = (Inl ex, a') \<Longrightarrow>
         files p' ! i = (files p ! i)\<lparr>fe_status := FAILED, fe_error := Some (str_exn ex)\<rparr>"
    by simp_all
qed

lemma issues_upload_blobs:
  assumes "upload_blobs repo p = (n, p')" and "P No_json" and "\<And>c. P (Blob_json c)"
  shows "issues P (api p) (api p')"
proof -
  from assms(1) obtain F T U Fl A where
    loop: "upload_loop repo (files p) [] [] 0 0 (api p) = (F, T, U, Fl, A)"
    and p': "p' = p\<lparr>api := A, files := F, tree_entries := tree_entries p @ T\<rparr>"
    by (rule upload_blobsE)
  from upload_loop_issues [OF loop, of P] assms(2,3) p' show ?thesis by simp
qed

text \<open>
  What a run keeps true: the tree entries are those of the uploaded files, and every
  tree request carried them.
\<close>

lemma create_commit_good:
  assumes te: "tree_entries p = uploaded_entries (files p)"
    and log: "tree_requests (sent (api p)) = []"
  shows "tree_entries (snd (create_commit repo msg p)) =
           uploaded_entries (files (snd (create_commit repo msg p))) \<and>
         (\<forall>(es, b)\<in>set (tree_requests (sent (api (snd (create_commit repo msg p))))).
            es = uploaded_entries (files (snd (create_commit repo msg p))))"
proof -
  let ?P = "\<lambda>j. \<forall>es b. j = Tree_json es b \<longrightarrow> es = tree_entries p"
  have "issues ?P (api p) (api (snd (create_commit repo msg p)))"
    by (rule issues_create_commit) simp_all
  then have "\<forall>(es, b)\<in>set (tree_requests (sent (api (snd (create_commit repo msg p))))).
      es = tree_entries p"
    by (rule issues_tree_requests) (simp_all add: log)
  with te create_commit_frame [of repo msg p] show ?thesis by simp
qed

lemma publish_upload_good:
  assumes te: "tree_entries p = []" and log: "tree_requests (sent (api p)) = []"
  shows "tree_entries (snd (publish_upload repo msg r p)) =
           uploaded_entries (files (snd (publish_upload repo msg r p))) \<and>
         (\<forall>(es, b)\<in>set (tree_requests (sent (api (snd (publish_upload repo msg r p))))).
            es = uploaded_entries (files (snd (publish_upload repo msg r p))))"
proof -
  obtain n p3 where up: "upload_blobs repo p = (n, p3)"
    by (cases "upload_blobs repo p")
  have 1: "tree_entries p3 = uploaded_entries (files p3)"
    using upload_blobs_facts(1) [OF up] te by simp
  have "issues (\<lambda>j. tree_of j = []) (api p) (api p3)"
    by (rule issues_upload_blobs [OF up]) simp_all
  then have 2: "tree_requests (sent (api p3)) = []"
    using issues_no_tree_requests [of "\<lambda>j. tree_of j = []" "api p" "api p3"] log by simp
  from create_commit_good [OF 1 2, of repo msg] up show ?thesis
    by (simp add: publish_upload_snd)
qed

lemma publish_create_good:
  assumes te: "tree_entries p = []" and log: "tree_requests (sent (api p)) = []"
    and st: "\<forall>e\<in>set (files p). fe_status e \<noteq> SUCCESS"
  shows "tree_entries (snd (publish_create repo d v t msg r p)) =
           uploaded_entries (files (snd (publish_create repo d v t msg r p))) \<and>
         (\<forall>(es, b)\<in>set (tree_requests (sent (api (snd (publish_create repo d v t msg r p))))).
            es = uploaded_entries (files (snd (publish_create repo d v t msg r p))))"
proof -
  let ?cfg = "publish_config repo d v t"
  let ?N = "\<lambda>j. tree_of j = []"
  obtain r1 a1 where cr: "create_repository ?cfg (api p) = (r1, a1)"
    by (cases "create_repository ?cfg (api p)")
  have i1: "issues ?N (api p) a1"
    using issues_create_repository [of ?N "api p" ?cfg] cr by simp
  have l1: "tree_requests (sent a1) = []"
    using issues_no_tree_requests [OF i1] log by simp
  show ?thesis
  proof (cases r1)
    case (Inl e)
    with cr te l1 uploaded_entries_none [OF st] show ?thesis
      by (simp add: publish_create_fails)
  next
    case (Inr rr)
    obtain r2 a2 where tp: "set_topics repo (rc_topics ?cfg) a1 = (r2, a2)"
      by (cases "set_topics repo (rc_topics ?cfg) a1")
    have i2: "issues ?N a1 a2"
      using issues_set_topics [of ?N "rc_topics ?cfg" a1 repo] tp by simp
    have l2: "tree_requests (sent a2) = []"
      using issues_no_tree_requests [OF i2] l1 by simp
    show ?thesis
    proof (cases r2)
      case (Inl e)
      with cr Inr tp te l2 uploaded_entries_none [OF st] show ?thesis
        by (simp add: publish_create_topics_fail)
    next
      case u: (Inr u)
      from cr Inr tp u
      have "publish_create repo d v t msg r p =
          publish_upload repo msg (r\<lparr>repo_url := rr_html_url rr\<rparr>) (p\<lparr>api := a2\<rparr>)"
        by (simp add: publish_create_reaches_upload)
      with publish_upload_good [of "p\<lparr>api := a2\<rparr>" repo msg "r\<lparr>repo_url := rr_html_url rr\<rparr>"]
        te l2 show ?thesis by simp
    qed
  qed
qed

lemma publish_good:
  assumes te: "tree_entries p = []" and log: "tree_requests (sent (api p)) = []"
    and st: "\<forall>e\<in>set (files p). fe_status e \<noteq> SUCCESS"
  shows "tree_entries (snd (publish repo d v t msg p)) =
           uploaded_entries (files (snd (publish repo d v t msg p))) \<and>
         (\<forall>(es, b)\<in>set (tree_requests (sent (api (snd (publish repo d v t msg p))))).
            es = uploaded_entries (files (snd (publish repo d v t msg p))))"
proof (cases "validate_source p")
  case False
  with te log uploaded_entries_none [OF st] show ?thesis
    by (simp add: publish_invalid)
next
  case True
  let ?N = "\<lambda>j. tree_of j = []"
  let ?fs = "files p @ read_entries (file_paths (source_path p))"
  obtain r1 a1 where ck: "check_repo_exists repo (api p) = (r1, a1)"
    by (cases "check_repo_exists repo (api p)")
  have i1: "issues ?N (api p) a1"
    using issues_check_repo_exists [of ?N "api p" repo] ck by simp
  have l1: "tree_requests (sent a1) = []"
    using issues_no_tree_requests [OF i1] log by simp
  have st': "\<forall>e\<in>set ?fs. fe_status e \<noteq> SUCCESS"
    using st read_entries_pending [of "file_paths (source_path p)"] by auto
  show ?thesis
  proof (cases r1)
    case (Inl e)
    with True ck te l1 uploaded_entries_none [OF st] show ?thesis
      by (simp add: publish_check_raises)
  next
    case (Inr exists)
    show ?thesis
    proof (cases exists)
      case True
      with \<open>validate_source p\<close> ck Inr te l1 uploaded_entries_none [OF st] show ?thesis
        by (simp add: publish_exists)
    next
      case False
      show ?thesis
      proof (cases "?fs = []")
        case True
        with \<open>validate_source p\<close> ck Inr False te l1 show ?thesis
          by (simp add: publish_no_files uploaded_entries_def)
      next
        case ne: False
        from \<open>validate_source p\<close> ck Inr False ne
        have "publish repo d v t msg p =
            publish_create repo d v t msg (PublishResult_init False) (p\<lparr>api := a1, files := ?fs\<rparr>)"
          by (simp add: publish_reaches_create)
        with publish_create_good [of "p\<lparr>api := a1, files := ?fs\<rparr>" repo d v t msg
            "PublishResult_init False"] te l1 st'
        show ?thesis by simp
      qed
    qed
  qed
qed

lemma publish_upload_success:
  assumes "upload_blobs repo p = (n, p3)"
    and "tree_entries p3 \<noteq> []"
    and "get_default_branch_sha repo (api p3) = (Inr parent, a4)"
    and "create_tree repo (tree_entries p3) parent a4 = (Inr tree, a5)"
    and "api_create_commit repo msg (tree_sha tree) parent a5 = (Inr commit, a6)"
    and "cr_sha commit \<noteq> []"
    and "update_ref repo ''heads/main'' (cr_sha commit) True a6 = (Inr u, a7)"
  shows "publish_upload repo msg r p =
     (r\<lparr>files_uploaded := n, files_skipped := int (length (files p3)) - n,
        commit_sha := cr_sha commit, success := True\<rparr>, p3\<lparr>api := a7\<rparr>)"
  using assms by (simp add: publish_upload_def publish_commit_def create_commit_def)

lemma uploaded_entries_nonempty:
  assumes "j < length fs" and "fe_status (fs ! j) = SUCCESS"
  shows "uploaded_entries fs \<noteq> []"
proof -
  from assms have "fs ! j \<in> set (filter (\<lambda>e. fe_status e = SUCCESS) fs)" by simp
  then have "filter (\<lambda>e. fe_status e = SUCCESS) fs \<noteq> []" by force
  then show ?thesis by (simp add: uploaded_entries_def)
qed

lemma upload_blobs_too_large:
  assumes up: "upload_blobs repo p = (n, p')"
    and i: "i < length (files p')"
    and big: "MAX_FILE_SIZE_MB * (1024 * 1024) < length (fe_content (files p' ! i))"
  shows "fe_status (files p' ! i) = FAILED"
    and "fe_error (files p' ! i) =
      Some (''File too large: '' @ format_size (length (fe_content (files p' ! i))))"
proof -
  from upload_blobs_facts(2) [OF up] i have i': "i < length (files p)" by simp
  have "map fe_content (files p') ! i = map fe_content (files p) ! i"
    using upload_blobs_facts(3) [OF up] by simp
  with i i' have c: "fe_content (files p' ! i) = fe_content (files p ! i)" by simp
  let ?a = "api_after repo (map fe_content (take i (files p))) (api p)"
  have "create_blob repo (fe_content (files p ! i)) ?a =
      (Inl (GitHubAPIError
         (''File too large: '' @ format_size (length (fe_content (files p ! i)))) 0), ?a)"
    using big c by (simp add: create_blob_too_large)
  from upload_blobs_nth(2) [OF up i' this]
  have eq: "files p' ! i =
      (files p ! i)\<lparr>fe_status := FAILED,
         fe_error := Some (''File too large: '' @ format_size (length (fe_content (files p ! i))))\<rparr>"
    by simp
  show "fe_status (files p' ! i) = FAILED"
    by (subst eq) simp
  show "fe_error (files p' ! i) =
      Some (''File too large: '' @ format_size (length (fe_content (files p' ! i))))"
    unfolding c by (subst eq) simp
qed

lemma user_raises: "user a = (Inl e, a1) \<Longrightarrow> \<exists>m c. e = GitHubAPIError m c"
  by (auto simp: user_def get_authenticated_user_def
      split: if_splits prod.splits sum.splits dest: request_api_raises)

lemma get_default_branch_sha_user_error:
  assumes "user a = (Inl e, a1)"
  shows "get_default_branch_sha repo a = (Inr None, a1)"
proof -
  from user_raises [OF assms] obtain m c where "e = GitHubAPIError m c" by blast
  with assms show ?thesis by (simp add: get_default_branch_sha_def)
qed

lemma get_default_branch_sha_request_error:
  assumes "user a = (Inr u, a1)"
    and "session a1 (sent a1)
           \<lparr>rq_method = ''GET'',
            rq_endpoint = ''/repos/'' @ u @ ''/'' @ repo @ ''/git/refs/heads/main'',
            rq_json = No_json\<rparr> = resp"
    and "(\<exists>txt. resp = RequestException txt) \<or> (\<exists>code data. resp = Response code data \<and> 400 \<le> code)"
  shows "get_default_branch_sha repo a =
     (Inr None,
      a1\<lparr>sent := sent a1 @
        [\<lparr>rq_method = ''GET'',
          rq_endpoint = ''/repos/'' @ u @ ''/'' @ repo @ ''/git/refs/heads/main'',
          rq_json = No_json\<rparr>]\<rparr>)"
  using assms by (auto simp: get_default_branch_sha_def request_api_def Let_def)

lemma get_default_branch_sha_request_ok:
  assumes "user a = (Inr u, a1)"
    and "session a1 (sent a1)
           \<lparr>rq_method = ''GET'',
            rq_endpoint = ''/repos/'' @ u @ ''/'' @ repo @ ''/git/refs/heads/main'',
            rq_json = No_json\<rparr> = Response code data"
    and "code < 400" and "code \<noteq> 204" and "b_object data = Some (Some s)"
  shows "get_default_branch_sha repo a =
     (Inr (Some s),
      a1\<lparr>sent := sent a1 @
        [\<lparr>rq_method = ''GET'',
          rq_endpoint = ''/repos/'' @ u @ ''/'' @ repo @ ''/git/refs/heads/main'',
          rq_json = No_json\<rparr>]\<rparr>)"
  using assms by (simp add: get_default_branch_sha_def request_api_def Let_def)

lemma create_tree_cached:
  assumes "truthy (user_cache a)"
  shows "snd (create_tree repo es b a) =
     a\<lparr>sent := sent a @
       [\<lparr>rq_method = ''POST'',
         rq_endpoint = ''/repos/'' @ the (user_cache a) @ ''/'' @ repo @ ''/git/trees'',
         rq_json = Tree_json es (if truthy b then b else None)\<rparr>]\<rparr>"
proof -
  let ?rq = "request_api ''POST'' (''/repos/'' @ the (user_cache a) @ ''/'' @ repo @ ''/git/trees'')
               (Tree_json es (if truthy b then b else None)) a"
  have "snd (create_tree repo es b a) = snd ?rq"
    using assms
    by (cases ?rq) (simp add: create_tree_def user_cached Let_def split: sum.splits option.splits)
  then show ?thesis by (simp add: request_api_snd)
qed

lemma api_create_commit_cached:
  assumes "truthy (user_cache a)"
  shows "snd (api_create_commit repo m t ps a) =
     a\<lparr>sent := sent a @
       [\<lparr>rq_method = ''POST'',
         rq_endpoint = ''/repos/'' @ the (user_cache a) @ ''/'' @ repo @ ''/git/commits'',
         rq_json = Commit_json m t (if truthy ps then Some [the ps] else None)\<rparr>]\<rparr>"
proof -
  let ?rq = "request_api ''POST'' (''/repos/'' @ the (user_cache a) @ ''/'' @ repo @ ''/git/commits'')
               (Commit_json m t (if truthy ps then Some [the ps] else None)) a"
  have "snd (api_create_commit repo m t ps a) = snd ?rq"
    using assms
    by (cases ?rq)
       (simp add: api_create_commit_def user_cached Let_def split: sum.splits option.splits)
  then show ?thesis by (simp add: request_api_snd)
qed

text \<open>
  With the user name known, \<open>create_commit\<close> sends the tree request right after the head
  has been read, and the commit request right after the tree has been created.
\<close>

lemma create_commit_sends:
  assumes ne: "tree_entries p \<noteq> []"
    and g: "get_default_branch_sha repo (api p) = (Inr parent, a1)"
    and cached: "truthy (user_cache a1)"
  shows "\<exists>rest.
      sent (api (snd (create_commit repo msg p))) =
        sent a1 @
          \<lparr>rq_method = ''POST'',
           rq_endpoint = ''/repos/'' @ the (user_cache a1) @ ''/'' @ repo @ ''/git/trees'',
           rq_json = Tree_json (tree_entries p) (if truthy parent then parent else None)\<rparr> # rest \<and>
      (\<forall>tree a2. create_tree repo (tree_entries p) parent a1 = (Inr tree, a2) \<longrightarrow>
         (\<exists>rest'. rest =
            \<lparr>rq_method = ''POST'',
             rq_endpoint = ''/repos/'' @ the (user_cache a1) @ ''/'' @ repo @ ''/git/commits'',
             rq_json = Commit_json msg (tree_sha tree)
                         (if truthy parent then Some [the parent] else None)\<rparr> # rest'))"
proof -
  let ?T = "\<lparr>rq_method = ''POST'',
            rq_endpoint = ''/repos/'' @ the (user_cache a1) @ ''/'' @ repo @ ''/git/trees'',
            rq_json = Tree_json (tree_entries p) (if truthy parent then parent else None)\<rparr>"
  obtain r2 a2 where ct: "create_tree repo (tree_entries p) parent a1 = (r2, a2)"
    by (cases "create_tree repo (tree_entries p) parent a1")
  from create_tree_cached [OF cached, of repo "tree_entries p" parent] ct
  have a2: "a2 = a1\<lparr>sent := sent a1 @ [?T]\<rparr>" by simp
  show ?thesis
  proof (cases r2)
    case (Inl e)
    with ne g ct a2 show ?thesis by (simp add: create_commit_def)
  next
    case tree: (Inr tree)
    let ?C = "\<lparr>rq_method = ''POST'',
              rq_endpoint = ''/repos/'' @ the (user_cache a1) @ ''/'' @ repo @ ''/git/commits'',
              rq_json = Commit_json msg (tree_sha tree)
                          (if truthy parent then Some [the parent] else None)\<rparr>"
    obtain r3 a3 where cc: "api_create_commit repo msg (tree_sha tree) parent a2 = (r3, a3)"
      by (cases "api_create_commit repo msg (tree_sha tree) parent a2")
    from cached a2 have cached2: "truthy (user_cache a2)" by simp
    from api_create_commit_cached [OF cached2, of repo msg "tree_sha tree" parent] cc a2
    have a3: "sent a3 = sent a1 @ ?T # [?C]" by simp
    show ?thesis
    proof (cases r3)
      case (Inl e)
      with ne g ct tree cc a3 show ?thesis by (simp add: create_commit_def)
    next
      case commit: (Inr commit)
      obtain r4 a4 where ur: "update_ref repo ''heads/main'' (cr_sha commit) True a3 = (r4, a4)"
        by (cases "update_ref repo ''heads/main'' (cr_sha commit) True a3")
      have "issues (\<lambda>j. True) a3 a4"
        using issues_update_ref [of "\<lambda>j. True" "cr_sha commit" True a3 repo "''heads/main''"] ur
        by simp
      then obtain new where "sent a4 = sent a3 @ new"
        unfolding issues_def by blast
      with a3 have a4: "sent a4 = sent a1 @ ?T # ?C # new" by simp
      from ne g ct tree cc commit ur a4 show ?thesis
        by (cases r4) (simp_all add: create_commit_def)
    qed
  qed
qed

section \<open>The claims\<close>

text \<open>The definitions that a concrete run unfolds.\<close>

lemmas run_defs =
  demo_run_def run_def publish_def publish_create_def publish_upload_def publish_commit_def
  publish_config_def create_commit_def upload_blobs_def collect_files_def
  GitHubPublisher_init_def GitHubAPI_init_def PublishResult_init_def TreeEntry_init_def
  forward_slashes_def check_repo_exists_def create_repository_def set_topics_def
  create_blob_def create_tree_def api_create_commit_def update_ref_def
  get_default_branch_sha_def user_def get_authenticated_user_def request_api_def
  empty_body_def MAX_FILE_SIZE_MB_def DEFAULT_TOPICS_def show_nat.simps Let_def
  github_def github_ok_def demo_head_commit_def
  blob_requests_def tree_requests_def commit_requests_def creation_requests_def

subsection \<open>C2: the counts of the result\<close>

text \<open>
  C2 says that \<open>files_failed\<close> is the number of entries with status FAILED and that
  \<open>files_skipped\<close> counts skipped files only. \<^verbatim>\<open>publish\<close> never assigns
  \<open>files_failed\<close> and sets \<open>files_skipped\<close> to \<^verbatim>\<open>len(self.files) - uploaded\<close>: in a run
  of two files, one of which the remote rejects, the result reports one uploaded, one
  skipped and no failed file, although one entry is FAILED and none was skipped.
\<close>

theorem C2_failed_uploads_counted_as_skipped:
  "fst (demo_run (github (blob_fails [1])) two_files) =
     \<lparr>success = True, repo_url = ''https://github.com/octo/demo'', commit_sha = ''k1'',
      files_uploaded = 1, files_skipped = 1, files_failed = 0, error = None\<rparr> \<and>
   map fe_status (files (snd (demo_run (github (blob_fails [1])) two_files))) = [SUCCESS, FAILED]"
  by (simp add: run_defs blob_fails_def two_files_def)

subsection \<open>C7: every upload failed\<close>

text \<open>
  C7 says that a run whose uploads all fail returns a result with \<open>success\<close> false and
  \<open>error\<close> set. \<^verbatim>\<open>create_commit\<close> returns \<^verbatim>\<open>None\<close> on the empty tree-entry list
  and \<^verbatim>\<open>publish\<close> then returns the result as it is: \<open>success\<close> is false and \<open>error\<close>
  is still \<open>None\<close>, unlike the three earlier failures of \<^verbatim>\<open>publish\<close>, which each
  store a text.
\<close>

theorem C7_all_uploads_failed_no_error:
  "fst (demo_run (github (blob_fails [1])) one_file) =
     \<lparr>success = False, repo_url = ''https://github.com/octo/demo'', commit_sha = [],
      files_uploaded = 0, files_skipped = 1, files_failed = 0, error = None\<rparr> \<and>
   map fe_status (files (snd (demo_run (github (blob_fails [1])) one_file))) = [FAILED] \<and>
   tree_entries (snd (demo_run (github (blob_fails [1])) one_file)) = []"
  by (simp add: run_defs blob_fails_def one_file_def)

subsection \<open>C6: the repository already exists\<close>

text \<open>
  C6 as stated, for every run whose target repository exists, fails where the source
  directory is missing: the source is validated first, and the run ends with
  \<^verbatim>\<open>Invalid source path\<close> without asking the remote, although the remote would answer
  that the repository exists.
\<close>

theorem C6_counterexample:
  "fst (check_repo_exists ''demo'' (GitHubAPI_init (github repo_exists))) = Inr True \<and>
   error (fst (demo_run (github repo_exists) Missing)) = Some ''Invalid source path''"
  by (simp add: run_defs repo_exists_def)

text \<open>
  C6 amended: for every publish run over a valid source whose existence check finds the
  repository, the result is the failure \<^verbatim>\<open>Repository already exists\<close>, the publisher
  changes only by the requests of the check, and among them is no blob, tree, commit or
  ref request.
\<close>

theorem C6_existing_repository:
  assumes "validate_source p" and "check_repo_exists repo (api p) = (Inr True, a1)"
  shows "publish repo d v t msg p =
           ((PublishResult_init False)\<lparr>error := Some ''Repository already exists''\<rparr>,
            p\<lparr>api := a1\<rparr>) \<and>
         creation_requests (sent a1) = creation_requests (sent (api p))"
proof
  show "publish repo d v t msg p =
      ((PublishResult_init False)\<lparr>error := Some ''Repository already exists''\<rparr>, p\<lparr>api := a1\<rparr>)"
    using assms by (rule publish_exists)
  have "issues (\<lambda>j. j = No_json) (api p) a1"
    using issues_check_repo_exists [of "\<lambda>j. j = No_json" "api p" repo] assms(2) by simp
  then show "creation_requests (sent a1) = creation_requests (sent (api p))"
    by (rule issues_creation_requests) simp
qed

text \<open>
  C6, a run that meets the hypotheses: two files to publish and a remote that has the
  repository. No creation request is issued at all.
\<close>

theorem C6_existing_repository_witness:
  "validate_source (GitHubPublisher_init (github repo_exists) two_files) \<and>
   fst (check_repo_exists ''demo'' (api (GitHubPublisher_init (github repo_exists) two_files))) =
     Inr True \<and>
   fst (demo_run (github repo_exists) two_files) =
     \<lparr>success = False, repo_url = [], commit_sha = [], files_uploaded = 0, files_skipped = 0,
      files_failed = 0, error = Some ''Repository already exists''\<rparr> \<and>
   creation_requests (sent (api (snd (demo_run (github repo_exists) two_files)))) = []"
  using C6_existing_repository
    [of "GitHubPublisher_init (github repo_exists) two_files" "''demo''"
        "snd (check_repo_exists ''demo'' (api (GitHubPublisher_init (github repo_exists) two_files)))"
        "''A demo''" "''public''" None "''Initial commit''"]
  by (simp add: run_defs repo_exists_def two_files_def)

subsection \<open>C9: nothing to publish\<close>

text \<open>
  C9 says that a run over a valid source from which no file is collected fails with
  \<^verbatim>\<open>No files to upload\<close> whether or not the repository exists. \<^verbatim>\<open>publish\<close> checks
  the repository (step 2) before it collects (step 3): over an empty directory and a
  remote that has the repository, the run fails with \<^verbatim>\<open>Repository already exists\<close>.
\<close>

theorem C9_counterexample:
  "validate_source (GitHubPublisher_init (github repo_exists) (Directory [])) \<and>
   fst (collect_files (GitHubPublisher_init (github repo_exists) (Directory []))) = 0 \<and>
   error (fst (demo_run (github repo_exists) (Directory []))) = Some ''Repository already exists''"
  by (simp add: run_defs repo_exists_def)

text \<open>
  C9 amended: the steps occur in the order validation, existence check, collection,
  repository creation. For every publish run over a valid source from which no entry is
  collected, the run fails with \<^verbatim>\<open>No files to upload\<close> when the check reports that the
  repository does not exist, with \<^verbatim>\<open>Repository already exists\<close> when it reports that
  it exists, and with the text of the exception when the check raises. In each case the
  publisher is left as it was except for its client, which is the client that the
  existence check returned: the requests of the run are those of the check, none of
  them with a payload, so the repository is not created and no blob, tree, commit or ref
  request is issued.
\<close>

theorem C9_nothing_to_publish:
  assumes "validate_source p"
    and "files p @ read_entries (file_paths (source_path p)) = []"
    and "check_repo_exists repo (api p) = (r, a1)"
  shows "publish repo d v t msg p =
           ((PublishResult_init False)
              \<lparr>error :=
                 Some (case r of
                         Inl e \<Rightarrow> str_exn e
                       | Inr exists \<Rightarrow>
                           if exists then ''Repository already exists''
                           else ''No files to upload'')\<rparr>,
            p\<lparr>api := a1\<rparr>) \<and>
         (\<exists>new. sent a1 = sent (api p) @ new \<and> (\<forall>rq\<in>set new. rq_json rq = No_json)) \<and>
         creation_requests (sent a1) = creation_requests (sent (api p))"
proof (intro conjI)
  have i: "issues (\<lambda>j. j = No_json) (api p) a1"
    using issues_check_repo_exists [of "\<lambda>j. j = No_json" "api p" repo] assms(3) by simp
  then show "\<exists>new. sent a1 = sent (api p) @ new \<and> (\<forall>rq\<in>set new. rq_json rq = No_json)"
    unfolding issues_def by blast
  from i show "creation_requests (sent a1) = creation_requests (sent (api p))"
    by (rule issues_creation_requests) simp
  from assms(2) have "files p = []" by simp
  then have fs: "p\<lparr>api := a1, files := []\<rparr> = p\<lparr>api := a1\<rparr>"
    by (cases p) simp
  have oe: "\<And>e res. on_error e res = res\<lparr>error := Some (str_exn e)\<rparr>"
  proof -
    fix e res show "on_error e res = res\<lparr>error := Some (str_exn e)\<rparr>"
      by (cases e) simp_all
  qed
  show "publish repo d v t msg p =
      ((PublishResult_init False)
         \<lparr>error :=
            Some (case r of
                    Inl e \<Rightarrow> str_exn e
                  | Inr exists \<Rightarrow>
                      if exists then ''Repository already exists''
                      else ''No files to upload'')\<rparr>,
       p\<lparr>api := a1\<rparr>)"
  proof (cases r)
    case (Inl e)
    with assms show ?thesis
      by (simp add: publish_check_raises oe)
  next
    case (Inr exists)
    show ?thesis
    proof (cases exists)
      case True
      with assms Inr show ?thesis by (simp add: publish_exists)
    next
      case False
      with assms Inr have "publish repo d v t msg p =
          ((PublishResult_init False)\<lparr>error := Some ''No files to upload''\<rparr>,
           p\<lparr>api := a1, files := []\<rparr>)"
        by (intro publish_no_files) simp_all
      with fs Inr False show ?thesis by simp
    qed
  qed
qed

text \<open>
  C9, a run that meets the hypotheses: an empty directory, the repository absent. The two
  requests of the run are the user lookup and the existence check.
\<close>

theorem C9_nothing_to_publish_witness:
  "validate_source (GitHubPublisher_init github_ok (Directory [])) \<and>
   files (GitHubPublisher_init github_ok (Directory [])) @
     read_entries (file_paths (source_path (GitHubPublisher_init github_ok (Directory [])))) = [] \<and>
   fst (check_repo_exists ''demo'' (api (GitHubPublisher_init github_ok (Directory [])))) =
     Inr False \<and>
   fst (demo_run github_ok (Directory [])) =
     (PublishResult_init False)\<lparr>error := Some ''No files to upload''\<rparr> \<and>
   sent (api (snd (demo_run github_ok (Directory [])))) =
     [\<lparr>rq_method = ''GET'', rq_endpoint = ''/user'', rq_json = No_json\<rparr>,
      \<lparr>rq_method = ''GET'', rq_endpoint = ''/repos/octo/demo'', rq_json = No_json\<rparr>]"
  using C9_nothing_to_publish
    [of "GitHubPublisher_init github_ok (Directory [])" "''demo''"
        "fst (check_repo_exists ''demo'' (api (GitHubPublisher_init github_ok (Directory []))))"
        "snd (check_repo_exists ''demo'' (api (GitHubPublisher_init github_ok (Directory []))))"
        "''A demo''" "''public''" None "''Initial commit''"]
  by (simp add: run_defs)

subsection \<open>C3: the topics cannot be set\<close>

text \<open>
  C3 says that a failure of \<^verbatim>\<open>set_topics\<close> does not abort the run. The call stands in
  the \<^verbatim>\<open>try\<close> block of \<^verbatim>\<open>publish\<close> without a handler of its own: against a remote
  that creates the repository and rejects the topics, the run ends with \<open>success\<close>
  false and the message of the remote, before any blob is uploaded.
\<close>

theorem C3_counterexample:
  "fst (demo_run (github topics_fail) two_files) =
     \<lparr>success = False, repo_url = ''https://github.com/octo/demo'', commit_sha = [],
      files_uploaded = 0, files_skipped = 0, files_failed = 0,
      error = Some ''Validation Failed''\<rparr> \<and>
   blob_requests (sent (api (snd (demo_run (github topics_fail) two_files)))) = [] \<and>
   map fe_status (files (snd (demo_run (github topics_fail) two_files))) = [PENDING, PENDING]"
  by (simp add: run_defs topics_fail_def two_files_def)

text \<open>
  C3 amended: for every publish run in which the repository was created, an exception of
  \<^verbatim>\<open>set_topics\<close> aborts the run: the result has \<open>success\<close> false, the URL of the new
  repository and the text of the exception as \<open>error\<close>; the collected entries are left
  as they were collected and no blob request is issued.
\<close>

theorem C3_topics_failure_aborts:
  assumes "validate_source p"
    and "check_repo_exists repo (api p) = (Inr False, a1)"
    and "files p @ read_entries (file_paths (source_path p)) \<noteq> []"
    and "create_repository (publish_config repo d v t) a1 = (Inr rr, a2)"
    and "set_topics repo (rc_topics (publish_config repo d v t)) a2 = (Inl e, a3)"
  shows "publish repo d v t msg p =
           ((PublishResult_init False)\<lparr>repo_url := rr_html_url rr, error := Some (str_exn e)\<rparr>,
            p\<lparr>api := a3, files := files p @ read_entries (file_paths (source_path p))\<rparr>) \<and>
         blob_requests (sent a3) = blob_requests (sent (api p))"
proof
  have oe: "\<And>r. on_error e r = r\<lparr>error := Some (str_exn e)\<rparr>"
    by (cases e) simp_all
  from assms show "publish repo d v t msg p =
      ((PublishResult_init False)\<lparr>repo_url := rr_html_url rr, error := Some (str_exn e)\<rparr>,
       p\<lparr>api := a3, files := files p @ read_entries (file_paths (source_path p))\<rparr>)"
    by (simp add: publish_reaches_create publish_create_topics_fail oe)
  let ?P = "\<lambda>j. blob_of j = []"
  have "issues ?P (api p) a1"
    using issues_check_repo_exists [of ?P "api p" repo] assms(2) by simp
  moreover have "issues ?P a1 a2"
    using issues_create_repository [of ?P a1 "publish_config repo d v t"] assms(4) by simp
  moreover have "issues ?P a2 a3"
    using issues_set_topics [of ?P "rc_topics (publish_config repo d v t)" a2 repo] assms(5)
    by simp
  ultimately have "issues ?P (api p) a3"
    by (blast intro: issues_trans)
  then show "blob_requests (sent a3) = blob_requests (sent (api p))"
    by (rule issues_blob_requests)
qed

text \<open>
  C3, a run that meets the hypotheses: two files, a remote that creates the repository
  and answers 422 to the topics.
\<close>

theorem C3_topics_failure_aborts_witness:
  "fst (set_topics ''demo'' DEFAULT_TOPICS
          (snd (create_repository (publish_config ''demo'' ''A demo'' ''public'' None)
             (snd (check_repo_exists ''demo'' (GitHubAPI_init (github topics_fail))))))) =
     Inl (GitHubAPIError ''Validation Failed'' 422) \<and>
   fst (demo_run (github topics_fail) two_files) =
     (PublishResult_init False)\<lparr>repo_url := ''https://github.com/octo/demo'',
        error := Some ''Validation Failed''\<rparr> \<and>
   blob_requests (sent (api (snd (demo_run (github topics_fail) two_files)))) = []"
proof -
  let ?p = "GitHubPublisher_init (github topics_fail) two_files"
  let ?cfg = "publish_config ''demo'' ''A demo'' ''public'' None"
  let ?a1 = "snd (check_repo_exists ''demo'' (api ?p))"
  let ?a2 = "snd (create_repository ?cfg ?a1)"
  let ?a3 = "snd (set_topics ''demo'' (rc_topics ?cfg) ?a2)"
  let ?rr = "\<lparr>rr_id = 1, rr_name = ''demo'', rr_full_name = ''octo/demo'',
              rr_html_url = ''https://github.com/octo/demo'',
              rr_clone_url = ''https://github.com/octo/demo.git'',
              rr_ssh_url = ''git@github.com:octo/demo.git'', rr_default_branch = ''main''\<rparr>"
  have h1: "validate_source ?p"
    by (simp add: run_defs two_files_def)
  have h2: "check_repo_exists ''demo'' (api ?p) = (Inr False, ?a1)"
    by (simp add: run_defs topics_fail_def)
  have h3: "files ?p @ read_entries (file_paths (source_path ?p)) \<noteq> []"
    by (simp add: run_defs two_files_def)
  have h4: "create_repository ?cfg ?a1 = (Inr ?rr, ?a2)"
    by (simp add: run_defs topics_fail_def)
  have h5: "set_topics ''demo'' (rc_topics ?cfg) ?a2 =
      (Inl (GitHubAPIError ''Validation Failed'' 422), ?a3)"
    by (simp add: run_defs topics_fail_def)
  from C3_topics_failure_aborts [OF h1 h2 h3 h4 h5, of "''Initial commit''"] h5
  show ?thesis
    by (simp add: run_defs topics_fail_def two_files_def)
qed

subsection \<open>C10: an error while the branch head is read\<close>

text \<open>
  C10: \<^verbatim>\<open>get_default_branch_sha\<close> never lets an API error out. When the lookup of the
  user name raises, and when the user name is there and the request for
  \<^verbatim>\<open>refs/heads/main\<close> fails (an exception of the transport or any status from 400 on,
  whatever its cause), the result is \<^verbatim>\<open>None\<close>, the very value of a repository without
  commits. \<^verbatim>\<open>create_commit\<close> then goes on. With the user name known, its next request
  is the tree request with the uploaded entries and without \<^verbatim>\<open>base_tree\<close>, and when
  the tree is created the request after it is the commit request for that tree without
  \<^verbatim>\<open>parents\<close>. In any case no tree request of \<^verbatim>\<open>create_commit\<close> carries a
  \<^verbatim>\<open>base_tree\<close> and no commit request carries \<^verbatim>\<open>parents\<close>.
\<close>

theorem C10_head_read_error_gives_none:
  "fst (get_default_branch_sha repo a) \<noteq> Inl (GitHubAPIError m c) \<and>
   (user b = (Inl e, b1) \<longrightarrow> get_default_branch_sha repo b = (Inr None, b1)) \<and>
   (user a = (Inr u, a') \<and>
    session a' (sent a')
      \<lparr>rq_method = ''GET'',
       rq_endpoint = ''/repos/'' @ u @ ''/'' @ repo @ ''/git/refs/heads/main'',
       rq_json = No_json\<rparr> = resp \<and>
    ((\<exists>txt. resp = RequestException txt) \<or> (\<exists>code data. resp = Response code data \<and> 400 \<le> code))
    \<longrightarrow>
    get_default_branch_sha repo a =
      (Inr None,
       a'\<lparr>sent := sent a' @
         [\<lparr>rq_method = ''GET'',
           rq_endpoint = ''/repos/'' @ u @ ''/'' @ repo @ ''/git/refs/heads/main'',
           rq_json = No_json\<rparr>]\<rparr>)) \<and>
   (tree_entries p \<noteq> [] \<and> get_default_branch_sha repo (api p) = (Inr None, a1) \<longrightarrow>
    (\<exists>new. sent (api (snd (create_commit repo msg p))) = sent a1 @ new \<and>
       (\<forall>(es, base)\<in>set (tree_requests new). es = tree_entries p \<and> base = None) \<and>
       (\<forall>(m', t, ps)\<in>set (commit_requests new). ps = None))) \<and>
   (tree_entries p \<noteq> [] \<and> get_default_branch_sha repo (api p) = (Inr None, a1) \<and>
    truthy (user_cache a1) \<longrightarrow>
    (\<exists>rest.
       sent (api (snd (create_commit repo msg p))) =
         sent a1 @
           \<lparr>rq_method = ''POST'',
            rq_endpoint = ''/repos/'' @ the (user_cache a1) @ ''/'' @ repo @ ''/git/trees'',
            rq_json = Tree_json (tree_entries p) None\<rparr> # rest \<and>
       (\<forall>tree a2. create_tree repo (tree_entries p) None a1 = (Inr tree, a2) \<longrightarrow>
          (\<exists>rest'. rest =
             \<lparr>rq_method = ''POST'',
              rq_endpoint = ''/repos/'' @ the (user_cache a1) @ ''/'' @ repo @ ''/git/commits'',
              rq_json = Commit_json msg (tree_sha tree) None\<rparr> # rest'))))"
proof (intro conjI impI)
  show "fst (get_default_branch_sha repo a) \<noteq> Inl (GitHubAPIError m c)"
    by (rule get_default_branch_sha_no_api_error)
next
  assume "user b = (Inl e, b1)"
  then show "get_default_branch_sha repo b = (Inr None, b1)"
    by (rule get_default_branch_sha_user_error)
next
  assume "user a = (Inr u, a') \<and>
    session a' (sent a')
      \<lparr>rq_method = ''GET'',
       rq_endpoint = ''/repos/'' @ u @ ''/'' @ repo @ ''/git/refs/heads/main'',
       rq_json = No_json\<rparr> = resp \<and>
    ((\<exists>txt. resp = RequestException txt) \<or> (\<exists>code data. resp = Response code data \<and> 400 \<le> code))"
  then show "get_default_branch_sha repo a =
      (Inr None,
       a'\<lparr>sent := sent a' @
         [\<lparr>rq_method = ''GET'',
           rq_endpoint = ''/repos/'' @ u @ ''/'' @ repo @ ''/git/refs/heads/main'',
           rq_json = No_json\<rparr>]\<rparr>)"
    using get_default_branch_sha_request_error [of a u a' repo resp] by blast
next
  assume "tree_entries p \<noteq> [] \<and> get_default_branch_sha repo (api p) = (Inr None, a1)"
  then show "\<exists>new. sent (api (snd (create_commit repo msg p))) = sent a1 @ new \<and>
       (\<forall>(es, base)\<in>set (tree_requests new). es = tree_entries p \<and> base = None) \<and>
       (\<forall>(m', t, ps)\<in>set (commit_requests new). ps = None)"
    using create_commit_requests [of p repo None a1 msg] by simp
next
  assume "tree_entries p \<noteq> [] \<and> get_default_branch_sha repo (api p) = (Inr None, a1) \<and>
    truthy (user_cache a1)"
  then show "\<exists>rest.
       sent (api (snd (create_commit repo msg p))) =
         sent a1 @
           \<lparr>rq_method = ''POST'',
            rq_endpoint = ''/repos/'' @ the (user_cache a1) @ ''/'' @ repo @ ''/git/trees'',
            rq_json = Tree_json (tree_entries p) None\<rparr> # rest \<and>
       (\<forall>tree a2. create_tree repo (tree_entries p) None a1 = (Inr tree, a2) \<longrightarrow>
          (\<exists>rest'. rest =
             \<lparr>rq_method = ''POST'',
              rq_endpoint = ''/repos/'' @ the (user_cache a1) @ ''/'' @ repo @ ''/git/commits'',
              rq_json = Commit_json msg (tree_sha tree) None\<rparr> # rest'))"
    using create_commit_sends [of p repo None a1 msg] by simp
qed

text \<open>
  C10, clients and a publisher that meet the hypotheses: a remote that answers 401 to
  the user lookup; a remote that answers 403 (rate limit) to the request for the branch
  head, with the user name known and one entry uploaded. The tree and the commit are
  created without base and without parent, and the whole run against the second remote
  ends with \<open>success\<close>.
\<close>

theorem C10_head_read_error_gives_none_witness:
  "get_default_branch_sha ''demo'' (GitHubAPI_init (github user_lookup_fails)) =
     (Inr None,
      \<lparr>session = github user_lookup_fails,
       sent = [\<lparr>rq_method = ''GET'', rq_endpoint = ''/user'', rq_json = No_json\<rparr>],
       user_cache = None\<rparr>) \<and>
   get_default_branch_sha ''demo''
     \<lparr>session = github head_read_fails, sent = [], user_cache = Some ''octo''\<rparr> =
     (Inr None,
      \<lparr>session = github head_read_fails,
       sent = [\<lparr>rq_method = ''GET'', rq_endpoint = ''/repos/octo/demo/git/refs/heads/main'',
                rq_json = No_json\<rparr>],
       user_cache = Some ''octo''\<rparr>) \<and>
   map rq_json (sent (api (snd (create_commit ''demo'' ''Initial commit''
     \<lparr>api = \<lparr>session = github head_read_fails, sent = [], user_cache = Some ''octo''\<rparr>,
      source_path = one_file, files = [],
      tree_entries = [TreeEntry_init ''b.txt'' ''b1'']\<rparr>)))) =
     [No_json, Tree_json [TreeEntry_init ''b.txt'' ''b1''] None,
      Commit_json ''Initial commit'' ''t1'' None, Ref_update_json ''k1'' True] \<and>
   success (fst (demo_run (github head_read_fails) two_files)) \<and>
   map snd (tree_requests (sent (api (snd (demo_run (github head_read_fails) two_files))))) =
     [None] \<and>
   map (\<lambda>(m, t, ps). ps)
     (commit_requests (sent (api (snd (demo_run (github head_read_fails) two_files))))) =
     [None]"
  using C10_head_read_error_gives_none
    [where repo = "''demo''"
       and b = "GitHubAPI_init (github user_lookup_fails)"
       and e = "GitHubAPIError ''Bad credentials'' 401"
       and ?b1.0 = "\<lparr>session = github user_lookup_fails,
                     sent = [\<lparr>rq_method = ''GET'', rq_endpoint = ''/user'', rq_json = No_json\<rparr>],
                     user_cache = None\<rparr>"
       and a = "\<lparr>session = github head_read_fails, sent = [], user_cache = Some ''octo''\<rparr>"
       and u = "''octo''"
       and a' = "\<lparr>session = github head_read_fails, sent = [], user_cache = Some ''octo''\<rparr>"
       and resp = "Response 403 (empty_body\<lparr>b_message := Some ''API rate limit exceeded''\<rparr>)"
       and p = "\<lparr>api = \<lparr>session = github head_read_fails, sent = [], user_cache = Some ''octo''\<rparr>,
                 source_path = one_file, files = [],
                 tree_entries = [TreeEntry_init ''b.txt'' ''b1'']\<rparr>"
       and ?a1.0 = "\<lparr>session = github head_read_fails,
                     sent = [\<lparr>rq_method = ''GET'',
                              rq_endpoint = ''/repos/octo/demo/git/refs/heads/main'',
                              rq_json = No_json\<rparr>],
                     user_cache = Some ''octo''\<rparr>"
       and msg = "''Initial commit''"]
  by (simp add: run_defs head_read_fails_def user_lookup_fails_def two_files_def)

subsection \<open>C8: the base of the new tree\<close>

text \<open>
  C8 says that \<^verbatim>\<open>create_tree\<close> receives the tree identifier of the head commit.
  \<^verbatim>\<open>create_commit\<close> passes \<^verbatim>\<open>parent_sha\<close>, the commit identifier that the ref
  \<^verbatim>\<open>heads/main\<close> points to, as \<^verbatim>\<open>base_tree\<close>; the client has no operation that reads
  the tree of a commit. In the run below the head commit is \<open>demo_head_commit\<close> and its
  tree is \<open>demo_head_tree\<close>; the tree request carries the commit.
\<close>

theorem C8_counterexample:
  "tree_requests (sent (api (snd (demo_run github_ok one_file)))) =
     [([TreeEntry_init ''b.txt'' ''blob-1''], Some demo_head_commit)] \<and>
   Some demo_head_commit \<noteq> Some demo_head_tree"
  by (simp add: run_defs one_file_def demo_head_tree_def)

text \<open>
  C8 amended: when the request for the branch head is answered, the value read is
  \<^verbatim>\<open>data["object"]["sha"]\<close> of the ref, the identifier of the head commit. With the
  user name known, the next request of \<^verbatim>\<open>create_commit\<close> is the tree request with the
  uploaded entries and that commit identifier as \<^verbatim>\<open>base_tree\<close> (none when the value
  read is \<^verbatim>\<open>None\<close> or empty), and when the tree is created the request after it is
  the commit request for that tree with the same identifier as its only parent. In any
  case every tree request of \<^verbatim>\<open>create_commit\<close> carries that base and every commit
  request that parent.
\<close>

theorem C8_base_tree_is_head_commit:
  "(user a = (Inr u, a') \<and>
    session a' (sent a')
      \<lparr>rq_method = ''GET'',
       rq_endpoint = ''/repos/'' @ u @ ''/'' @ repo @ ''/git/refs/heads/main'',
       rq_json = No_json\<rparr> = Response code data \<and>
    code < 400 \<and> code \<noteq> 204 \<and> b_object data = Some (Some s)
    \<longrightarrow>
    get_default_branch_sha repo a =
      (Inr (Some s),
       a'\<lparr>sent := sent a' @
         [\<lparr>rq_method = ''GET'',
           rq_endpoint = ''/repos/'' @ u @ ''/'' @ repo @ ''/git/refs/heads/main'',
           rq_json = No_json\<rparr>]\<rparr>)) \<and>
   (tree_entries p \<noteq> [] \<and> get_default_branch_sha repo (api p) = (Inr parent, a1) \<longrightarrow>
    (\<exists>new. sent (api (snd (create_commit repo msg p))) = sent a1 @ new \<and>
       (\<forall>(es, b)\<in>set (tree_requests new).
          es = tree_entries p \<and> b = (if truthy parent then parent else None)) \<and>
       (\<forall>(m, t, ps)\<in>set (commit_requests new).
          ps = (if truthy parent then Some [the parent] else None)))) \<and>
   (tree_entries p \<noteq> [] \<and> get_default_branch_sha repo (api p) = (Inr parent, a1) \<and>
    truthy (user_cache a1) \<longrightarrow>
    (\<exists>rest.
       sent (api (snd (create_commit repo msg p))) =
         sent a1 @
           \<lparr>rq_method = ''POST'',
            rq_endpoint = ''/repos/'' @ the (user_cache a1) @ ''/'' @ repo @ ''/git/trees'',
            rq_json = Tree_json (tree_entries p) (if truthy parent then parent else None)\<rparr> #
           rest \<and>
       (\<forall>tree a2. create_tree repo (tree_entries p) parent a1 = (Inr tree, a2) \<longrightarrow>
          (\<exists>rest'. rest =
             \<lparr>rq_method = ''POST'',
              rq_endpoint = ''/repos/'' @ the (user_cache a1) @ ''/'' @ repo @ ''/git/commits'',
              rq_json = Commit_json msg (tree_sha tree)
                          (if truthy parent then Some [the parent] else None)\<rparr> # rest'))))"
proof (intro conjI impI)
  assume "user a = (Inr u, a') \<and>
    session a' (sent a')
      \<lparr>rq_method = ''GET'',
       rq_endpoint = ''/repos/'' @ u @ ''/'' @ repo @ ''/git/refs/heads/main'',
       rq_json = No_json\<rparr> = Response code data \<and>
    code < 400 \<and> code \<noteq> 204 \<and> b_object data = Some (Some s)"
  then show "get_default_branch_sha repo a =
      (Inr (Some s),
       a'\<lparr>sent := sent a' @
         [\<lparr>rq_method = ''GET'',
           rq_endpoint = ''/repos/'' @ u @ ''/'' @ repo @ ''/git/refs/heads/main'',
           rq_json = No_json\<rparr>]\<rparr>)"
    using get_default_branch_sha_request_ok [of a u a' repo code data s] by simp
next
  assume "tree_entries p \<noteq> [] \<and> get_default_branch_sha repo (api p) = (Inr parent, a1)"
  then show "\<exists>new. sent (api (snd (create_commit repo msg p))) = sent a1 @ new \<and>
       (\<forall>(es, b)\<in>set (tree_requests new).
          es = tree_entries p \<and> b = (if truthy parent then parent else None)) \<and>
       (\<forall>(m, t, ps)\<in>set (commit_requests new).
          ps = (if truthy parent then Some [the parent] else None))"
    using create_commit_requests [of p repo parent a1 msg] by simp
next
  assume "tree_entries p \<noteq> [] \<and> get_default_branch_sha repo (api p) = (Inr parent, a1) \<and>
    truthy (user_cache a1)"
  then show "\<exists>rest.
       sent (api (snd (create_commit repo msg p))) =
         sent a1 @
           \<lparr>rq_method = ''POST'',
            rq_endpoint = ''/repos/'' @ the (user_cache a1) @ ''/'' @ repo @ ''/git/trees'',
            rq_json = Tree_json (tree_entries p) (if truthy parent then parent else None)\<rparr> #
           rest \<and>
       (\<forall>tree a2. create_tree repo (tree_entries p) parent a1 = (Inr tree, a2) \<longrightarrow>
          (\<exists>rest'. rest =
             \<lparr>rq_method = ''POST'',
              rq_endpoint = ''/repos/'' @ the (user_cache a1) @ ''/'' @ repo @ ''/git/commits'',
              rq_json = Commit_json msg (tree_sha tree)
                          (if truthy parent then Some [the parent] else None)\<rparr> # rest'))"
    using create_commit_sends [of p repo parent a1 msg] by simp
qed

text \<open>
  C8, a publisher that meets the hypotheses: the user is known, one entry has been
  uploaded, and the remote serves the head commit. The requests of \<^verbatim>\<open>create_commit\<close>
  are the head read, the tree on the head commit, the commit with the head commit as
  parent and the ref update.
\<close>

theorem C8_base_tree_is_head_commit_witness:
  "fst (get_default_branch_sha ''demo''
     \<lparr>session = github_ok, sent = [], user_cache = Some ''octo''\<rparr>) =
     Inr (Some demo_head_commit) \<and>
   map rq_json (sent (api (snd (create_commit ''demo'' ''Initial commit''
     \<lparr>api = \<lparr>session = github_ok, sent = [], user_cache = Some ''octo''\<rparr>,
      source_path = one_file, files = [],
      tree_entries = [TreeEntry_init ''b.txt'' ''b1'']\<rparr>)))) =
     [No_json, Tree_json [TreeEntry_init ''b.txt'' ''b1''] (Some demo_head_commit),
      Commit_json ''Initial commit'' ''t1'' (Some [demo_head_commit]),
      Ref_update_json ''k1'' True]"
  using C8_base_tree_is_head_commit
    [where a = "\<lparr>session = github_ok, sent = [], user_cache = Some ''octo''\<rparr>"
       and u = "''octo''"
       and a' = "\<lparr>session = github_ok, sent = [], user_cache = Some ''octo''\<rparr>"
       and repo = "''demo''" and code = 200
       and data = "empty_body\<lparr>b_object := Some (Some demo_head_commit)\<rparr>"
       and s = demo_head_commit
       and p = "\<lparr>api = \<lparr>session = github_ok, sent = [], user_cache = Some ''octo''\<rparr>,
                 source_path = one_file, files = [],
                 tree_entries = [TreeEntry_init ''b.txt'' ''b1'']\<rparr>"
       and parent = "Some demo_head_commit"
       and ?a1.0 = "\<lparr>session = github_ok,
                     sent = [\<lparr>rq_method = ''GET'',
                              rq_endpoint = ''/repos/octo/demo/git/refs/heads/main'',
                              rq_json = No_json\<rparr>],
                     user_cache = Some ''octo''\<rparr>"
       and msg = "''Initial commit''"]
  by (simp add: run_defs)

subsection \<open>C1: the tree holds the uploaded entries\<close>

text \<open>
  C1: in every publish run, when the run ends \<^verbatim>\<open>self.tree_entries\<close> is the list of
  the collected entries with status SUCCESS, each as a tree entry with the path and the
  blob identifier of the file, and every tree request the run issued carried exactly
  that list: no entry with status FAILED or PENDING is part of it. In
  \<^verbatim>\<open>upload_blobs\<close>, on any publisher, the entries appended to \<^verbatim>\<open>self.tree_entries\<close>
  are those of the files left with status SUCCESS, and a file is left with status
  SUCCESS exactly when its \<^verbatim>\<open>create_blob\<close> call returned.
\<close>

theorem C1_tree_entries_are_uploaded_files:
  "tree_entries (snd (run srv src repo d v t msg)) =
     uploaded_entries (files (snd (run srv src repo d v t msg))) \<and>
   (\<forall>(es, b)\<in>set (tree_requests (sent (api (snd (run srv src repo d v t msg))))).
      es = uploaded_entries (files (snd (run srv src repo d v t msg)))) \<and>
   (\<forall>n p'. upload_blobs repo p = (n, p') \<longrightarrow>
      tree_entries p' = tree_entries p @ uploaded_entries (files p') \<and>
      (\<forall>i<length (files p).
         (fe_status (files p' ! i) = SUCCESS) =
         (\<exists>blob a'. create_blob repo (fe_content (files p ! i))
                       (api_after repo (map fe_content (take i (files p))) (api p)) =
                     (Inr blob, a'))))"
proof (intro conjI allI impI)
  have "tree_entries (snd (run srv src repo d v t msg)) =
      uploaded_entries (files (snd (run srv src repo d v t msg))) \<and>
    (\<forall>(es, b)\<in>set (tree_requests (sent (api (snd (run srv src repo d v t msg))))).
      es = uploaded_entries (files (snd (run srv src repo d v t msg))))"
    unfolding run_def
    by (rule publish_good) (simp_all add: GitHubPublisher_init_def GitHubAPI_init_def
        tree_requests_def)
  then show "tree_entries (snd (run srv src repo d v t msg)) =
      uploaded_entries (files (snd (run srv src repo d v t msg)))"
    and "\<forall>(es, b)\<in>set (tree_requests (sent (api (snd (run srv src repo d v t msg))))).
      es = uploaded_entries (files (snd (run srv src repo d v t msg)))"
    by simp_all
next
  fix n p' assume up: "upload_blobs repo p = (n, p')"
  then show "tree_entries p' = tree_entries p @ uploaded_entries (files p')"
    by (rule upload_blobs_facts(1))
  fix i assume i: "i < length (files p)"
  let ?call = "create_blob repo (fe_content (files p ! i))
                 (api_after repo (map fe_content (take i (files p))) (api p))"
  obtain r a' where call: "?call = (r, a')" by (cases ?call)
  show "(fe_status (files p' ! i) = SUCCESS) = (\<exists>blob a'. ?call = (Inr blob, a'))"
  proof (cases r)
    case (Inl ex)
    with upload_blobs_nth(2) [OF up i, of ex a'] call show ?thesis by simp
  next
    case (Inr blob)
    with upload_blobs_nth(1) [OF up i, of blob a'] call show ?thesis by simp
  qed
qed

text \<open>
  C1, a run with a tree request: two files, the blob of the second is rejected. The tree
  request carries the entry of the first file only.
\<close>

theorem C1_tree_entries_are_uploaded_files_witness:
  "map fe_status (files (snd (demo_run (github (blob_fails [1])) two_files))) =
     [SUCCESS, FAILED] \<and>
   tree_entries (snd (demo_run (github (blob_fails [1])) two_files)) =
     [TreeEntry_init ''a.txt'' ''blob-0''] \<and>
   map fst (tree_requests (sent (api (snd (demo_run (github (blob_fails [1])) two_files))))) =
     [[TreeEntry_init ''a.txt'' ''blob-0'']] \<and>
   uploaded_entries (files (snd (demo_run (github (blob_fails [1])) two_files))) =
     [TreeEntry_init ''a.txt'' ''blob-0''] \<and>
   snd (upload_blobs ''demo''
     \<lparr>api = \<lparr>session = github (blob_fails [1]), sent = [], user_cache = Some ''octo''\<rparr>,
      source_path = two_files, files = read_entries (file_paths two_files),
      tree_entries = []\<rparr>) =
     \<lparr>api = \<lparr>session = github (blob_fails [1]),
             sent = [\<lparr>rq_method = ''POST'', rq_endpoint = ''/repos/octo/demo/git/blobs'',
                      rq_json = Blob_json [0]\<rparr>,
                     \<lparr>rq_method = ''POST'', rq_endpoint = ''/repos/octo/demo/git/blobs'',
                      rq_json = Blob_json [1]\<rparr>],
             user_cache = Some ''octo''\<rparr>,
      source_path = two_files,
      files = [\<lparr>fe_path = ''a.txt'', fe_content = [0], fe_sha = Some ''blob-0'',
                 fe_status = SUCCESS, fe_error = None\<rparr>,
               \<lparr>fe_path = ''b.txt'', fe_content = [1], fe_sha = None,
                 fe_status = FAILED, fe_error = Some ''Blob create failed: Unprocessable''\<rparr>],
      tree_entries = [TreeEntry_init ''a.txt'' ''blob-0'']\<rparr>"
  using C1_tree_entries_are_uploaded_files
    [of "github (blob_fails [1])" two_files "''demo''" "''A demo''" "''public''" None
        "''Initial commit''"
        "\<lparr>api = \<lparr>session = github (blob_fails [1]), sent = [], user_cache = Some ''octo''\<rparr>,
          source_path = two_files, files = read_entries (file_paths two_files),
          tree_entries = []\<rparr>"]
  by (simp add: run_defs blob_fails_def two_files_def uploaded_entries_def)

subsection \<open>C4: a failed upload does not stop the loop\<close>

text \<open>
  C4: \<^verbatim>\<open>upload_blobs\<close> keeps the number and the order of the entries. The entry at
  each position is the collected entry with the outcome of its own \<^verbatim>\<open>create_blob\<close>
  call, made on the client as the calls for the entries before it left it: status
  FAILED with the text of the exception, or status SUCCESS with the blob identifier.
  The client at the end is the client after the calls for all entries in collection
  order; with the user name known the blob requests issued are the contents of all
  files within the size limit, in that order, whatever the answers were. In
  \<^verbatim>\<open>publish\<close>, steps 6 and 7, the requests of \<^verbatim>\<open>upload_blobs\<close> are user lookups and
  blob requests only, and no blob request follows them.
\<close>

theorem C4_upload_continues_after_failure:
  "(\<forall>n p'. upload_blobs repo p = (n, p') \<longrightarrow>
      length (files p') = length (files p) \<and>
      (\<forall>i<length (files p).
         (\<forall>blob a'. create_blob repo (fe_content (files p ! i))
                       (api_after repo (map fe_content (take i (files p))) (api p)) =
                     (Inr blob, a') \<longrightarrow>
            files p' ! i = (files p ! i)\<lparr>fe_sha := Some (blob_sha blob), fe_status := SUCCESS\<rparr>) \<and>
         (\<forall>ex a'. create_blob repo (fe_content (files p ! i))
                     (api_after repo (map fe_content (take i (files p))) (api p)) =
                   (Inl ex, a') \<longrightarrow>
            files p' ! i = (files p ! i)\<lparr>fe_status := FAILED, fe_error := Some (str_exn ex)\<rparr>)) \<and>
      api p' = api_after repo (map fe_content (files p)) (api p) \<and>
      (truthy (user_cache (api p)) \<longrightarrow>
         blob_requests (sent (api p')) =
           blob_requests (sent (api p)) @
             filter (\<lambda>c. \<not> MAX_FILE_SIZE_MB * (1024 * 1024) < length c)
               (map fe_content (files p)))) \<and>
   (\<exists>up new.
      sent (api (snd (upload_blobs repo p))) = sent (api p) @ up \<and>
      (\<forall>r\<in>set up. rq_json r = No_json \<or> (\<exists>c. rq_json r = Blob_json c)) \<and>
      sent (api (snd (publish_upload repo msg r0 p))) = sent (api p) @ up @ new \<and>
      blob_requests new = [])"
proof (intro conjI allI impI)
  fix n p' assume up: "upload_blobs repo p = (n, p')"
  show "length (files p') = length (files p)"
    by (rule upload_blobs_facts(2) [OF up])
  show api: "api p' = api_after repo (map fe_content (files p)) (api p)"
    by (rule upload_blobs_facts(5) [OF up])
  {
    assume "truthy (user_cache (api p))"
    from api_after_cached [OF this, of repo "map fe_content (files p)"] api
    show "blob_requests (sent (api p')) =
        blob_requests (sent (api p)) @
          filter (\<lambda>c. \<not> MAX_FILE_SIZE_MB * (1024 * 1024) < length c) (map fe_content (files p))"
      by simp
  }
  fix i assume i: "i < length (files p)"
  {
    fix blob a'
    assume "create_blob repo (fe_content (files p ! i))
        (api_after repo (map fe_content (take i (files p))) (api p)) = (Inr blob, a')"
    then show "files p' ! i = (files p ! i)\<lparr>fe_sha := Some (blob_sha blob), fe_status := SUCCESS\<rparr>"
      by (rule upload_blobs_nth(1) [OF up i])
  }
  {
    fix ex a'
    assume "create_blob repo (fe_content (files p ! i))
        (api_after repo (map fe_content (take i (files p))) (api p)) = (Inl ex, a')"
    then show "files p' ! i = (files p ! i)\<lparr>fe_status := FAILED, fe_error := Some (str_exn ex)\<rparr>"
      by (rule upload_blobs_nth(2) [OF up i])
  }
next
  obtain n p3 where up: "upload_blobs repo p = (n, p3)"
    by (cases "upload_blobs repo p")
  let ?B = "\<lambda>j. j = No_json \<or> (\<exists>c. j = Blob_json c)"
  let ?N = "\<lambda>j. blob_of j = []"
  have "issues ?B (api p) (api p3)"
    by (rule issues_upload_blobs [OF up]) simp_all
  then obtain ups where ups: "sent (api p3) = sent (api p) @ ups" "\<forall>r\<in>set ups. ?B (rq_json r)"
    unfolding issues_def by blast
  have "issues ?N (api p3) (api (snd (create_commit repo msg p3)))"
    by (rule issues_create_commit) simp_all
  then obtain new where new: "sent (api (snd (create_commit repo msg p3))) = sent (api p3) @ new"
      "\<forall>r\<in>set new. ?N (rq_json r)"
    unfolding issues_def by blast
  from new(2) have "blob_requests new = []"
    by (induction new) (simp_all add: blob_requests_def)
  with ups new(1) up
  show "\<exists>up new.
      sent (api (snd (upload_blobs repo p))) = sent (api p) @ up \<and>
      (\<forall>r\<in>set up. rq_json r = No_json \<or> (\<exists>c. rq_json r = Blob_json c)) \<and>
      sent (api (snd (publish_upload repo msg r0 p))) = sent (api p) @ up @ new \<and>
      blob_requests new = []"
    by (auto simp: publish_upload_snd)
qed

text \<open>
  C4, a publisher whose first upload fails: the user is known, two files are collected
  and the remote rejects the blob of the first. The second file is still sent and
  uploaded, and the tree, commit and ref requests follow the two blob requests.
\<close>

theorem C4_upload_continues_after_failure_witness:
  "fst (create_blob ''demo'' [0]
     \<lparr>session = github (blob_fails [0]), sent = [], user_cache = Some ''octo''\<rparr>) =
     Inl (GitHubAPIError ''Blob create failed: Unprocessable'' 422) \<and>
   files (snd (upload_blobs ''demo''
     \<lparr>api = \<lparr>session = github (blob_fails [0]), sent = [], user_cache = Some ''octo''\<rparr>,
      source_path = two_files, files = read_entries (file_paths two_files),
      tree_entries = []\<rparr>)) =
     [\<lparr>fe_path = ''a.txt'', fe_content = [0], fe_sha = None, fe_status = FAILED,
       fe_error = Some ''Blob create failed: Unprocessable''\<rparr>,
      \<lparr>fe_path = ''b.txt'', fe_content = [1], fe_sha = Some ''blob-1'', fe_status = SUCCESS,
       fe_error = None\<rparr>] \<and>
   blob_requests (sent (api (snd (upload_blobs ''demo''
     \<lparr>api = \<lparr>session = github (blob_fails [0]), sent = [], user_cache = Some ''octo''\<rparr>,
      source_path = two_files, files = read_entries (file_paths two_files),
      tree_entries = []\<rparr>)))) = [[0], [1]] \<and>
   map rq_json (sent (api (snd (publish_upload ''demo'' ''Initial commit''
     (PublishResult_init False)
     \<lparr>api = \<lparr>session = github (blob_fails [0]), sent = [], user_cache = Some ''octo''\<rparr>,
      source_path = two_files, files = read_entries (file_paths two_files),
      tree_entries = []\<rparr>)))) =
     [Blob_json [0], Blob_json [1], No_json,
      Tree_json [TreeEntry_init ''b.txt'' ''blob-1''] (Some demo_head_commit),
      Commit_json ''Initial commit'' ''t1'' (Some [demo_head_commit]),
      Ref_update_json ''k1'' True] \<and>
   map fe_status (files (snd (demo_run (github (blob_fails [0])) two_files))) =
     [FAILED, SUCCESS] \<and>
   success (fst (demo_run (github (blob_fails [0])) two_files))"
  using C4_upload_continues_after_failure
    [of "''demo''"
        "\<lparr>api = \<lparr>session = github (blob_fails [0]), sent = [], user_cache = Some ''octo''\<rparr>,
          source_path = two_files, files = read_entries (file_paths two_files),
          tree_entries = []\<rparr>"
        "''Initial commit''" "PublishResult_init False"]
  by (simp add: run_defs blob_fails_def two_files_def api_after_def)

subsection \<open>C5: a file above the size limit\<close>

text \<open>
  C5 says that with a file above the limit the run still ends with success provided
  another file is uploaded. The claim fails where a later step fails: below, the small
  file is uploaded, the file of 50 MiB and one byte is marked FAILED, and the remote
  answers 500 to the tree request; the run ends with \<open>success\<close> false.
\<close>

theorem C5_counterexample:
  "MAX_FILE_SIZE_MB * (1024 * 1024) < length big_content \<and>
   files (snd (demo_run (github tree_fails) big_and_small)) =
     [\<lparr>fe_path = ''a.txt'', fe_content = [0], fe_sha = Some ''blob-0'', fe_status = SUCCESS,
       fe_error = None\<rparr>,
      \<lparr>fe_path = ''big.bin'', fe_content = big_content, fe_sha = None, fe_status = FAILED,
       fe_error = Some ''File too large: 50.0 MB''\<rparr>] \<and>
   fst (demo_run (github tree_fails) big_and_small) =
     \<lparr>success = False, repo_url = ''https://github.com/octo/demo'', commit_sha = [],
      files_uploaded = 1, files_skipped = 1, files_failed = 0, error = Some ''Server Error''\<rparr>"
proof -
  have len: "length big_content = 52428801"
    by (simp add: big_content_def)
  show ?thesis
    by (simp add: run_defs tree_fails_def big_and_small_def len format_size_def fmt_1f_def)
qed

text \<open>
  C5 amended: for every content above \<open>MAX_FILE_SIZE_MB\<close> mebibytes \<^verbatim>\<open>create_blob\<close>
  raises \<^verbatim>\<open>GitHubAPIError("File too large: ...")\<close> with status 0 and leaves the client as
  it was, so no request is issued; in a publish run that reaches the upload, the entry of
  such a file is marked FAILED with that message; and the run ends with \<open>success\<close>
  true provided another entry is uploaded and the calls that follow (reading the branch
  head, creating the tree, creating the commit, which returns a non-empty identifier,
  and updating the ref) all return.
\<close>

theorem C5_oversize_file_fails_locally:
  assumes "validate_source p"
    and "check_repo_exists repo (api p) = (Inr False, a1)"
    and "create_repository (publish_config repo d v t) a1 = (Inr rr, a2)"
    and "set_topics repo (rc_topics (publish_config repo d v t)) a2 = (Inr u, a3)"
    and up: "upload_blobs repo
               (p\<lparr>api := a3, files := files p @ read_entries (file_paths (source_path p))\<rparr>) =
             (n, p3)"
    and i: "i < length (files p3)"
    and big: "MAX_FILE_SIZE_MB * (1024 * 1024) < length (fe_content (files p3 ! i))"
    and j: "j < length (files p3)"
    and ok: "fe_status (files p3 ! j) = SUCCESS"
    and "get_default_branch_sha repo (api p3) = (Inr parent, a4)"
    and "create_tree repo (tree_entries p3) parent a4 = (Inr tree, a5)"
    and "api_create_commit repo msg (tree_sha tree) parent a5 = (Inr commit, a6)"
    and "cr_sha commit \<noteq> []"
    and "update_ref repo ''heads/main'' (cr_sha commit) True a6 = (Inr u', a7)"
  shows "create_blob repo (fe_content (files p3 ! i)) a =
           (Inl (GitHubAPIError
              (''File too large: '' @ format_size (length (fe_content (files p3 ! i)))) 0), a) \<and>
         fe_status (files p3 ! i) = FAILED \<and>
         fe_error (files p3 ! i) =
           Some (''File too large: '' @ format_size (length (fe_content (files p3 ! i)))) \<and>
         publish repo d v t msg p =
           ((PublishResult_init False)\<lparr>repo_url := rr_html_url rr, files_uploaded := n,
               files_skipped := int (length (files p3)) - n, commit_sha := cr_sha commit,
               success := True\<rparr>,
            p3\<lparr>api := a7\<rparr>)"
proof (intro conjI)
  let ?fs = "files p @ read_entries (file_paths (source_path p))"
  show "create_blob repo (fe_content (files p3 ! i)) a =
      (Inl (GitHubAPIError
         (''File too large: '' @ format_size (length (fe_content (files p3 ! i)))) 0), a)"
    using big by (rule create_blob_too_large)
  show "fe_status (files p3 ! i) = FAILED"
    by (rule upload_blobs_too_large(1) [OF up i big])
  show "fe_error (files p3 ! i) =
      Some (''File too large: '' @ format_size (length (fe_content (files p3 ! i))))"
    by (rule upload_blobs_too_large(2) [OF up i big])
  from upload_blobs_facts(2) [OF up] j have ne: "?fs \<noteq> []" by auto
  from upload_blobs_facts(1) [OF up] uploaded_entries_nonempty [OF j ok]
  have te: "tree_entries p3 \<noteq> []" by simp
  have st: "(p\<lparr>api := a1, files := ?fs\<rparr>)\<lparr>api := a3\<rparr> = p\<lparr>api := a3, files := ?fs\<rparr>"
    by (cases p) simp
  have "publish repo d v t msg p =
      publish_create repo d v t msg (PublishResult_init False) (p\<lparr>api := a1, files := ?fs\<rparr>)"
    using assms(1,2) ne by (rule publish_reaches_create)
  also have "\<dots> =
      publish_upload repo msg ((PublishResult_init False)\<lparr>repo_url := rr_html_url rr\<rparr>)
        ((p\<lparr>api := a1, files := ?fs\<rparr>)\<lparr>api := a3\<rparr>)"
    using assms(3,4) by (intro publish_create_reaches_upload) simp_all
  also have "\<dots> =
      publish_upload repo msg ((PublishResult_init False)\<lparr>repo_url := rr_html_url rr\<rparr>)
        (p\<lparr>api := a3, files := ?fs\<rparr>)"
    by (simp only: st)
  also have "\<dots> =
      ((PublishResult_init False)\<lparr>repo_url := rr_html_url rr, files_uploaded := n,
          files_skipped := int (length (files p3)) - n, commit_sha := cr_sha commit,
          success := True\<rparr>,
       p3\<lparr>api := a7\<rparr>)"
    by (rule publish_upload_success [OF up te assms(10-14)])
  finally show "publish repo d v t msg p =
      ((PublishResult_init False)\<lparr>repo_url := rr_html_url rr, files_uploaded := n,
          files_skipped := int (length (files p3)) - n, commit_sha := cr_sha commit,
          success := True\<rparr>,
       p3\<lparr>api := a7\<rparr>)" .
qed

text \<open>
  C5, a run that meets the hypotheses: a small file and a file of 50 MiB and one byte,
  against the remote that accepts every request. The big file is marked FAILED without a
  request, the run ends with \<open>success\<close>.
\<close>

theorem C5_oversize_file_fails_locally_witness:
  "MAX_FILE_SIZE_MB * (1024 * 1024) < length big_content \<and>
   create_blob ''demo'' big_content (GitHubAPI_init github_ok) =
     (Inl (GitHubAPIError ''File too large: 50.0 MB'' 0), GitHubAPI_init github_ok) \<and>
   map fe_status (files (snd (demo_run github_ok big_and_small))) = [SUCCESS, FAILED] \<and>
   blob_requests (sent (api (snd (demo_run github_ok big_and_small)))) = [[0]] \<and>
   fst (demo_run github_ok big_and_small) =
     \<lparr>success = True, repo_url = ''https://github.com/octo/demo'', commit_sha = ''k1'',
      files_uploaded = 1, files_skipped = 1, files_failed = 0, error = None\<rparr>"
proof -
  let ?p = "GitHubPublisher_init github_ok big_and_small"
  let ?cfg = "publish_config ''demo'' ''A demo'' ''public'' None"
  let ?a1 = "snd (check_repo_exists ''demo'' (api ?p))"
  let ?a2 = "snd (create_repository ?cfg ?a1)"
  let ?a3 = "snd (set_topics ''demo'' (rc_topics ?cfg) ?a2)"
  let ?rr = "\<lparr>rr_id = 1, rr_name = ''demo'', rr_full_name = ''octo/demo'',
              rr_html_url = ''https://github.com/octo/demo'',
              rr_clone_url = ''https://github.com/octo/demo.git'',
              rr_ssh_url = ''git@github.com:octo/demo.git'', rr_default_branch = ''main''\<rparr>"
  let ?p2 = "?p\<lparr>api := ?a3, files := files ?p @ read_entries (file_paths (source_path ?p))\<rparr>"
  let ?p3 = "snd (upload_blobs ''demo'' ?p2)"
  let ?a4 = "snd (get_default_branch_sha ''demo'' (api ?p3))"
  let ?tree = "\<lparr>tree_sha = ''t1'', tree_url = ''u''\<rparr>"
  let ?a5 = "snd (create_tree ''demo'' (tree_entries ?p3) (Some demo_head_commit) ?a4)"
  let ?commit = "\<lparr>cr_sha = ''k1'', cr_url = ''u'', cr_html_url = ''h''\<rparr>"
  let ?a6 = "snd (api_create_commit ''demo'' ''Initial commit'' (tree_sha ?tree)
                    (Some demo_head_commit) ?a5)"
  let ?a7 = "snd (update_ref ''demo'' ''heads/main'' (cr_sha ?commit) True ?a6)"
  have len: "length big_content = 52428801"
    by (simp add: big_content_def)
  note ev = run_defs big_and_small_def len format_size_def fmt_1f_def
  have h1: "validate_source ?p"
    by (simp add: ev)
  have h2: "check_repo_exists ''demo'' (api ?p) = (Inr False, ?a1)"
    by (simp add: ev)
  have h3: "create_repository ?cfg ?a1 = (Inr ?rr, ?a2)"
    by (simp add: ev)
  have h4: "set_topics ''demo'' (rc_topics ?cfg) ?a2 = (Inr (), ?a3)"
    by (simp add: ev)
  have h5: "upload_blobs ''demo'' ?p2 = (1, ?p3)"
    by (simp add: ev)
  have h6: "1 < length (files ?p3)"
    by (simp add: ev)
  have h7: "MAX_FILE_SIZE_MB * (1024 * 1024) < length (fe_content (files ?p3 ! 1))"
    by (simp add: ev)
  have h8: "0 < length (files ?p3)"
    by (simp add: ev)
  have h9: "fe_status (files ?p3 ! 0) = SUCCESS"
    by (simp add: ev)
  have h10: "get_default_branch_sha ''demo'' (api ?p3) = (Inr (Some demo_head_commit), ?a4)"
    by (simp add: ev)
  have h11: "create_tree ''demo'' (tree_entries ?p3) (Some demo_head_commit) ?a4 =
      (Inr ?tree, ?a5)"
    by (simp add: ev)
  have h12: "api_create_commit ''demo'' ''Initial commit'' (tree_sha ?tree)
      (Some demo_head_commit) ?a5 = (Inr ?commit, ?a6)"
    by (simp add: ev)
  have h13: "cr_sha ?commit \<noteq> []"
    by simp
  have h14: "update_ref ''demo'' ''heads/main'' (cr_sha ?commit) True ?a6 = (Inr (), ?a7)"
    by (simp add: ev)
  from C5_oversize_file_fails_locally
    [OF h1 h2 h3 h4 h5 h6 h7 h8 h9 h10 h11 h12 h13 h14, of "GitHubAPI_init github_ok"]
  show ?thesis
    by (simp add: ev)
qed

end
